theory Spec2Isabelle
  imports Complex_Main "HOL-Library.Word"
begin

section \<open>Data model\<close>

text \<open>
  The page \<^verbatim>\<open>pages/4_Model.py\<close> works on pandas data frames that have exactly one row.
  Such a frame is modelled as the list of its columns in column order, each column being a
  label and the cell of row 0.  Data frames are mutable objects that are passed by
  reference, so frames live in a store and the program handles references into it.
\<close>

subsection \<open>Cells and their arithmetic\<close>

text \<open>
  A column of the page has dtype \<^verbatim>\<open>int64\<close> or \<^verbatim>\<open>float64\<close>.  An \<^verbatim>\<open>int64\<close> cell is a 64-bit
  word read as a signed number, so its arithmetic wraps around.  A \<^verbatim>\<open>float64\<close> cell is a
  finite binary floating-point number, an infinity or a NaN; a finite one is given by the
  real number it stands for.  The sign of a zero is not modelled: it changes no comparison
  and no difference.
\<close>

datatype float64 = Finite real | PosInf | NegInf | NaN

datatype cell = Int64 "64 word" | Float64 float64

text \<open>Rounding to an integer, to nearest and ties to even.\<close>

definition round_half_even :: "real \<Rightarrow> int" where
  "round_half_even y =
     (let f = \<lfloor>y\<rfloor>; r = y - of_int f
      in if r < 1 / 2 then f
         else if 1 / 2 < r then f + 1
         else if even f then f else f + 1)"

text \<open>
  Rounding a real number to the \<^verbatim>\<open>float64\<close> grid, to nearest and ties to even: 53 significant
  bits at the binary exponent \<open>e\<close> of the number, and the fixed spacing \<open>2 powi (- 1074)\<close> below
  \<open>2 powi (- 1022)\<close>.  The range is not cut off here.
\<close>

definition round64 :: "real \<Rightarrow> real" where
  "round64 x =
     (if x = 0 then 0
      else (let e = max \<lfloor>log 2 \<bar>x\<bar>\<rfloor> (- 1022); u = 2 powi (e - 52)
            in of_int (round_half_even (x / u)) * u))"

text \<open>The \<^verbatim>\<open>float64\<close> result of an exact value: rounded, and an infinity beyond the range.\<close>

definition to_float64 :: "real \<Rightarrow> float64" where
  "to_float64 x =
     (let r = round64 x
      in if 2 ^ 1024 \<le> r then PosInf
         else if r \<le> - (2 ^ 1024) then NegInf
         else Finite r)"

text \<open>The real numbers that a finite \<^verbatim>\<open>float64\<close> can stand for.\<close>

definition is_float64 :: "real \<Rightarrow> bool" where
  "is_float64 x \<longleftrightarrow> round64 x = x \<and> \<bar>x\<bar> < 2 ^ 1024"

text \<open>An \<^verbatim>\<open>int64\<close> operand of a \<^verbatim>\<open>float64\<close> operation is converted first.\<close>

fun as_float64 :: "cell \<Rightarrow> float64" where
  "as_float64 (Int64 n) = to_float64 (of_int (sint n))"
| "as_float64 (Float64 f) = f"

text \<open>\<^verbatim>\<open>float64\<close> subtraction.\<close>

fun fsub :: "float64 \<Rightarrow> float64 \<Rightarrow> float64" where
  "fsub NaN y = NaN"
| "fsub x NaN = NaN"
| "fsub PosInf PosInf = NaN"
| "fsub NegInf NegInf = NaN"
| "fsub PosInf y = PosInf"
| "fsub NegInf y = NegInf"
| "fsub (Finite x) PosInf = NegInf"
| "fsub (Finite x) NegInf = PosInf"
| "fsub (Finite x) (Finite y) = to_float64 (x - y)"

text \<open>
  The difference of two one-row columns: \<^verbatim>\<open>int64\<close> when both are, with wrap-around, and
  \<^verbatim>\<open>float64\<close> otherwise.
\<close>

fun subtract :: "cell \<Rightarrow> cell \<Rightarrow> cell" where
  "subtract (Int64 a) (Int64 b) = Int64 (a - b)"
| "subtract (Int64 a) (Float64 g) = Float64 (fsub (as_float64 (Int64 a)) g)"
| "subtract (Float64 f) b = Float64 (fsub f (as_float64 b))"

text \<open>The comparison \<^verbatim>\<open>< 0\<close> of a cell; a comparison with a NaN is false.\<close>

fun negative :: "cell \<Rightarrow> bool" where
  "negative (Int64 a) \<longleftrightarrow> sint a < 0"
| "negative (Float64 (Finite x)) \<longleftrightarrow> x < 0"
| "negative (Float64 NegInf) \<longleftrightarrow> True"
| "negative (Float64 PosInf) \<longleftrightarrow> False"
| "negative (Float64 NaN) \<longleftrightarrow> False"

subsection \<open>Frames, the store and exceptions\<close>

type_synonym frame = "(string \<times> cell) list"

type_synonym ref = nat

type_synonym heap = "ref \<Rightarrow> frame"

text \<open>Python exceptions, each with the text that \<^verbatim>\<open>str(e)\<close> gives.\<close>

datatype error =
    KeyError string
  | ValueError string
  | AttributeError string
  | IndexError string
  | OtherError string

fun str :: "error \<Rightarrow> string" where
  "str (KeyError s) = s"
| "str (ValueError s) = s"
| "str (AttributeError s) = s"
| "str (IndexError s) = s"
| "str (OtherError s) = s"

subsection \<open>The pandas operations that \<^verbatim>\<open>preprocess\<close> uses\<close>

definition columns :: "frame \<Rightarrow> string list" where
  "columns F = map fst F"

text \<open>\<^verbatim>\<open>Index.unique\<close>: the first occurrence of every label, in order.\<close>

definition unique :: "string list \<Rightarrow> string list" where
  "unique xs = rev (remdups (rev xs))"

text \<open>
  \<^verbatim>\<open>Index.intersection\<close> (with its default \<^verbatim>\<open>sort=False\<close>): the labels of the left index that
  occur in the right one, without repetition, in the order of the left index.
\<close>

definition intersection :: "string list \<Rightarrow> string list \<Rightarrow> string list" where
  "intersection xs ys = filter (\<lambda>c. c \<in> set ys) (unique xs)"

text \<open>
  \<^verbatim>\<open>df[c]\<close> read as a column.  A label that is missing raises \<^verbatim>\<open>KeyError\<close>.  A label
  that occurs more than once selects a frame instead of a column, and the arithmetic,
  the assignment and the truth test that \<^verbatim>\<open>preprocess\<close> performs on the selection raise
  \<^verbatim>\<open>ValueError\<close>; the model raises it at the selection.
\<close>

definition getitem :: "frame \<Rightarrow> string \<Rightarrow> error + cell" where
  "getitem F c =
     (case filter (\<lambda>p. fst p = c) F of
        [] \<Rightarrow> Inl (KeyError c)
      | [p] \<Rightarrow> Inr (snd p)
      | _ \<Rightarrow> Inl (ValueError c))"

text \<open>
  \<^verbatim>\<open>df[c] = v\<close>: an existing column keeps its position and has its cell replaced, a new label
  is appended as the last column.
\<close>

definition setitem :: "frame \<Rightarrow> string \<Rightarrow> cell \<Rightarrow> frame" where
  "setitem F c v =
     (if c \<in> set (columns F) then map (\<lambda>p. if fst p = c then (fst p, v) else p) F
      else F @ [(c, v)])"

section \<open>\<^verbatim>\<open>preprocess\<close>\<close>

text \<open>
  Line 27: \<^verbatim>\<open>main_dataframe[column] = main_dataframe[column] - dataframe_with_last_known_value[column]\<close>.
  The frame behind reference \<open>m\<close> is updated in the store.
\<close>

definition subtract_column :: "ref \<Rightarrow> ref \<Rightarrow> string \<Rightarrow> heap \<Rightarrow> error + heap" where
  "subtract_column m k c h =
     (case getitem (h m) c of
        Inl e \<Rightarrow> Inl e
      | Inr v \<Rightarrow>
          (case getitem (h k) c of
             Inl e \<Rightarrow> Inl e
           | Inr b \<Rightarrow> Inr (h(m := setitem (h m) c (subtract v b)))))"

text \<open>Line 28, the guard \<^verbatim>\<open>main_dataframe[column].iloc[0] < 0\<close>.\<close>

definition first_negative :: "ref \<Rightarrow> string \<Rightarrow> heap \<Rightarrow> error + bool" where
  "first_negative m c h =
     (case getitem (h m) c of Inl e \<Rightarrow> Inl e | Inr d \<Rightarrow> Inr (negative d))"

text \<open>
  Lines 27 to 29, the body of the loop; line 29 is \<^verbatim>\<open>main_dataframe[column] = 0\<close>, which makes
  the column an \<^verbatim>\<open>int64\<close> column of the integer 0.
\<close>

definition difference_column :: "ref \<Rightarrow> ref \<Rightarrow> string \<Rightarrow> heap \<Rightarrow> error + heap" where
  "difference_column m k c h =
     (case subtract_column m k c h of
        Inl e \<Rightarrow> Inl e
      | Inr h1 \<Rightarrow>
          (case first_negative m c h1 of
             Inl e \<Rightarrow> Inl e
           | Inr neg \<Rightarrow> Inr (if neg then h1(m := setitem (h1 m) c (Int64 0)) else h1)))"

text \<open>Line 26, \<^verbatim>\<open>for column in common_columns\<close>.\<close>

fun preprocess_loop :: "ref \<Rightarrow> ref \<Rightarrow> string list \<Rightarrow> heap \<Rightarrow> error + heap" where
  "preprocess_loop m k [] h = Inr h"
| "preprocess_loop m k (c # cs) h =
     (case difference_column m k c h of
        Inl e \<Rightarrow> Inl e
      | Inr h' \<Rightarrow> preprocess_loop m k cs h')"

text \<open>
  \<^verbatim>\<open>preprocess(main_dataframe, dataframe_with_last_known_value)\<close>: the common labels are
  computed once (line 23), the loop runs, and line 30 returns \<^verbatim>\<open>main_dataframe\<close>, that is the
  reference it was given.
\<close>

definition preprocess :: "ref \<Rightarrow> ref \<Rightarrow> heap \<Rightarrow> error + (ref \<times> heap)" where
  "preprocess m k h =
     (let common_columns = intersection (columns (h m)) (columns (h k))
      in case preprocess_loop m k common_columns h of
           Inl e \<Rightarrow> Inl e
         | Inr h' \<Rightarrow> Inr (m, h'))"

text \<open>
  The columns at which the guard of line 28 held while the loop ran, so at which line 29 was
  executed.  This is not program data: it is read off the run, built from the pieces of the
  loop body above.
\<close>

fun clamped_columns :: "ref \<Rightarrow> ref \<Rightarrow> string list \<Rightarrow> heap \<Rightarrow> string list" where
  "clamped_columns m k [] h = []"
| "clamped_columns m k (c # cs) h =
     (case subtract_column m k c h of
        Inl e \<Rightarrow> []
      | Inr h1 \<Rightarrow>
          (case first_negative m c h1 of
             Inl e \<Rightarrow> []
           | Inr neg \<Rightarrow>
               (if neg then [c] else []) @
               (case difference_column m k c h of
                  Inl e \<Rightarrow> []
                | Inr h' \<Rightarrow> clamped_columns m k cs h')))"

text \<open>
  What the loop is expected to leave in a cell: the difference to the baseline cell of the
  same label when the label is one of \<open>cs\<close>, with a negative difference replaced by the
  integer 0.  The loop is compared with this below.
\<close>

definition adjust :: "frame \<Rightarrow> string list \<Rightarrow> string \<times> cell \<Rightarrow> string \<times> cell" where
  "adjust B cs p =
     (if fst p \<in> set cs
      then (case getitem B (fst p) of
              Inl e \<Rightarrow> p
            | Inr b \<Rightarrow>
                (fst p, if negative (subtract (snd p) b) then Int64 0 else subtract (snd p) b))
      else p)"

text \<open>The test that decides line 28 for a column, on the frames the call was given.\<close>

definition negative_difference :: "frame \<Rightarrow> frame \<Rightarrow> string \<Rightarrow> bool" where
  "negative_difference R B c =
     (case getitem R c of
        Inl e \<Rightarrow> False
      | Inr v \<Rightarrow>
          (case getitem B c of Inl e \<Rightarrow> False | Inr b \<Rightarrow> negative (subtract v b)))"

text \<open>Lines 28 and 29 on a cell: a negative cell becomes the integer 0.\<close>

definition floored :: "cell \<Rightarrow> cell" where
  "floored d = (if negative d then Int64 0 else d)"

section \<open>The model loader\<close>

text \<open>
  What the page does to the outside world, in the order in which it happens: elements written
  to the page, the two accesses to the file system, and the call of the model.
\<close>

datatype effect =
    St_error string
  | St_write string
  | St_write_frame frame
  | St_success string
  | Os_path_exists string
  | Joblib_load string
  | Model_predict frame

fun is_element :: "effect \<Rightarrow> bool" where
  "is_element (St_error s) = True"
| "is_element (St_write s) = True"
| "is_element (St_write_frame F) = True"
| "is_element (St_success s) = True"
| "is_element (Os_path_exists s) = False"
| "is_element (Joblib_load s) = False"
| "is_element (Model_predict F) = False"

text \<open>
  The unpickled model is opaque: its \<^verbatim>\<open>predict\<close> takes the frame and either raises or returns
  an array of predictions.
\<close>

type_synonym model = "frame \<Rightarrow> error + real list"

text \<open>
  What is at the model path when the loader looks: nothing, a file on which \<^verbatim>\<open>joblib.load\<close>
  raises, or a file that unpickles to a model.
\<close>

datatype artifact = Missing | Corrupt error | Stored model

definition model_path :: string where
  "model_path = ''model/xgb_model_total_imputed_cases.pkl''"

text \<open>The text of line 38, an f-string around the path.\<close>

definition not_found_message :: string where
  "not_found_message =
     '' Model file not found at '' @ model_path @ ''. Please check the path and try again.''"

text \<open>The body of \<^verbatim>\<open>load_model\<close> (lines 35 to 46); a bare \<^verbatim>\<open>return\<close> returns \<^verbatim>\<open>None\<close>.\<close>

definition load_model_body :: "artifact \<Rightarrow> effect list \<times> model option" where
  "load_model_body a =
     (case a of
        Missing \<Rightarrow>
          ([Os_path_exists model_path, St_error not_found_message], None)
      | Corrupt e \<Rightarrow>
          ([Os_path_exists model_path, Joblib_load model_path,
            St_error (''An error occured while loading the model: '' @ str e)], None)
      | Stored mdl \<Rightarrow>
          ([Os_path_exists model_path, Joblib_load model_path], Some mdl))"

text \<open>
  \<^verbatim>\<open>@st.cache_resource\<close> on a function without arguments: the first call runs the body and
  stores what it returned, whatever the value, together with the page elements the body
  wrote; every later call in the process returns the stored value without running the body
  and writes the stored elements again.  The cache is the only state that outlives a run of
  the script.
\<close>

type_synonym cache = "(model option \<times> effect list) option"

definition load_model :: "artifact \<Rightarrow> cache \<Rightarrow> (effect list \<times> model option) \<times> cache" where
  "load_model a c =
     (case c of
        Some (mdl, elements) \<Rightarrow> ((elements, mdl), c)
      | None \<Rightarrow>
          (let (effects, mdl) = load_model_body a
           in ((effects, mdl), Some (mdl, filter is_element effects))))"

section \<open>The page\<close>

text \<open>
  The values of the fourteen \<^verbatim>\<open>st.number_input\<close> widgets (lines 69 to 83), as the frame of
  line 87 stores them.  A widget whose \<^verbatim>\<open>min_value\<close> is an integer yields an integer, which
  the frame holds in an \<^verbatim>\<open>int64\<close> column; the others yield floats.
\<close>

record inputs =
  fullyVaccinated :: "64 word"
  new_deaths_smoothed :: real
  new_people_vaccinated_smoothed :: real
  new_vaccinations_smoothed :: real
  partiallyVaccinated :: "64 word"
  stringency_index :: real
  test24hours :: real
  totalTests :: "64 word"
  totalVaccinations :: "64 word"
  vaccinated24hours :: real
  rfh :: real
  r3h :: real
  month :: "64 word"
  day_of_week :: "64 word"

text \<open>The value of a float widget is a finite \<^verbatim>\<open>float64\<close>.\<close>

definition float_fields :: "inputs \<Rightarrow> bool" where
  "float_fields i \<longleftrightarrow>
     is_float64 (new_deaths_smoothed i) \<and>
     is_float64 (new_people_vaccinated_smoothed i) \<and>
     is_float64 (new_vaccinations_smoothed i) \<and>
     is_float64 (stringency_index i) \<and>
     is_float64 (test24hours i) \<and>
     is_float64 (vaccinated24hours i) \<and>
     is_float64 (rfh i) \<and>
     is_float64 (r3h i)"

text \<open>A widget never yields a value below its \<^verbatim>\<open>min_value\<close> or above its \<^verbatim>\<open>max_value\<close>.\<close>

definition within_bounds :: "inputs \<Rightarrow> bool" where
  "within_bounds i \<longleftrightarrow>
     float_fields i \<and>
     9327654 \<le> sint (fullyVaccinated i) \<and>
     0 \<le> new_deaths_smoothed i \<and>
     0 \<le> new_people_vaccinated_smoothed i \<and>
     0 \<le> new_vaccinations_smoothed i \<and>
     4663827 \<le> sint (partiallyVaccinated i) \<and>
     0 \<le> stringency_index i \<and> stringency_index i \<le> 100 \<and>
     0 \<le> test24hours i \<and>
     4166833 \<le> sint (totalTests i) \<and>
     9982068 \<le> sint (totalVaccinations i) \<and>
     0 \<le> vaccinated24hours i \<and>
     0 \<le> rfh i \<and>
     0 \<le> r3h i \<and>
     1 \<le> sint (month i) \<and> sint (month i) \<le> 12 \<and>
     0 \<le> sint (day_of_week i) \<and> sint (day_of_week i) \<le> 6"

text \<open>
  An Input Record short of the minimum bounds: the four cumulative counts are not negative
  and the floats are finite \<^verbatim>\<open>float64\<close> numbers.
\<close>

definition input_record :: "inputs \<Rightarrow> bool" where
  "input_record i \<longleftrightarrow>
     float_fields i \<and>
     0 \<le> sint (fullyVaccinated i) \<and>
     0 \<le> sint (partiallyVaccinated i) \<and>
     0 \<le> sint (totalTests i) \<and>
     0 \<le> sint (totalVaccinations i)"

text \<open>Every widget at its \<^verbatim>\<open>min_value\<close>, which is also its initial value.\<close>

definition minimum_inputs :: inputs where
  "minimum_inputs =
     \<lparr>fullyVaccinated = 9327654, new_deaths_smoothed = 0,
      new_people_vaccinated_smoothed = 0, new_vaccinations_smoothed = 0,
      partiallyVaccinated = 4663827, stringency_index = 0, test24hours = 0,
      totalTests = 4166833, totalVaccinations = 9982068, vaccinated24hours = 0,
      rfh = 0, r3h = 0, month = 1, day_of_week = 0\<rparr>"

text \<open>
  Values for an example: one count above its baseline, one below, one float above its
  baseline and one below.
\<close>

definition example_inputs :: inputs where
  "example_inputs =
     \<lparr>fullyVaccinated = 9327700, new_deaths_smoothed = 0,
      new_people_vaccinated_smoothed = 5, new_vaccinations_smoothed = 0,
      partiallyVaccinated = 4000000, stringency_index = 14, test24hours = 0,
      totalTests = 4166833, totalVaccinations = 9982068, vaccinated24hours = 0,
      rfh = 0, r3h = 0, month = 1, day_of_week = 0\<rparr>"

text \<open>Lines 87 to 102, the frame built from the widget values.\<close>

definition input_frame :: "inputs \<Rightarrow> frame" where
  "input_frame i =
     [(''fullyVaccinated'', Int64 (fullyVaccinated i)),
      (''new_deaths_smoothed'', Float64 (Finite (new_deaths_smoothed i))),
      (''new_people_vaccinated_smoothed'', Float64 (Finite (new_people_vaccinated_smoothed i))),
      (''new_vaccinations_smoothed'', Float64 (Finite (new_vaccinations_smoothed i))),
      (''partiallyVaccinated'', Int64 (partiallyVaccinated i)),
      (''stringency_index'', Float64 (Finite (stringency_index i))),
      (''test24hours'', Float64 (Finite (test24hours i))),
      (''totalTests'', Int64 (totalTests i)),
      (''totalVaccinations'', Int64 (totalVaccinations i)),
      (''vaccinated24hours'', Float64 (Finite (vaccinated24hours i))),
      (''rfh'', Float64 (Finite (rfh i))),
      (''r3h'', Float64 (Finite (r3h i))),
      (''month'', Int64 (month i)),
      (''day_of_week'', Int64 (day_of_week i))]"

text \<open>
  Lines 107 to 112, the frame of the last known values.  The literal \<^verbatim>\<open>13.89\<close> is read as the
  \<^verbatim>\<open>float64\<close> nearest to it; the other five columns are \<^verbatim>\<open>int64\<close>.
\<close>

definition differenced_features :: frame where
  "differenced_features =
     [(''fullyVaccinated'', Int64 9327654),
      (''new_people_vaccinated_smoothed'', Int64 959),
      (''partiallyVaccinated'', Int64 4663827),
      (''stringency_index'', Float64 (to_float64 13.89)),
      (''totalTests'', Int64 4166833),
      (''totalVaccinations'', Int64 9982068)]"

text \<open>
  The store after lines 87 to 112: the variable \<^verbatim>\<open>input_df\<close> holds the first frame and
  \<^verbatim>\<open>differencing_data\<close> the second.
\<close>

definition input_df :: ref where
  "input_df = 0"

definition differencing_data :: ref where
  "differencing_data = 1"

definition initial_heap :: "inputs \<Rightarrow> heap" where
  "initial_heap i =
     ((\<lambda>r. []) (input_df := input_frame i)) (differencing_data := differenced_features)"

subsection \<open>Formatting the prediction\<close>

text \<open>
  The format specification in line 124 is \<^verbatim>\<open>' .3f'\<close>: a blank in the sign position of a
  number that is not negative, a minus sign otherwise, then the magnitude in fixed notation
  with three decimals, rounded to nearest with ties to even.
\<close>

definition digit_char :: "nat \<Rightarrow> char" where
  "digit_char d = ''0123456789'' ! d"

fun decimal :: "nat \<Rightarrow> string" where
  "decimal n = (if n < 10 then [digit_char n] else decimal (n div 10) @ [digit_char (n mod 10)])"

definition format_3f :: "real \<Rightarrow> string" where
  "format_3f x =
     (let n = nat (round_half_even (\<bar>x\<bar> * 1000))
      in (if x < 0 then ''-'' else '' '') @ decimal (n div 1000) @ ''.'' @
         [digit_char (n div 100 mod 10), digit_char (n div 10 mod 10), digit_char (n mod 10)])"

subsection \<open>\<^verbatim>\<open>main\<close>\<close>

text \<open>
  Lines 122 to 126, the guarded block, for the value that \<^verbatim>\<open>load_model\<close> returned.  With
  \<^verbatim>\<open>None\<close> the attribute lookup \<^verbatim>\<open>model.predict\<close> raises before anything is called; with an
  empty array \<^verbatim>\<open>prediction[0]\<close> raises.  Every exception ends in the handler of line 126.
\<close>

definition none_has_no_predict :: string where
  "none_has_no_predict =
     [CHR 0x27] @ ''NoneType'' @ [CHR 0x27] @ '' object has no attribute '' @
     [CHR 0x27] @ ''predict'' @ [CHR 0x27]"

definition predict_block :: "model option \<Rightarrow> frame \<Rightarrow> effect list" where
  "predict_block mdl F =
     (case mdl of
        None \<Rightarrow> [St_error (''An error occurred: '' @ str (AttributeError none_has_no_predict))]
      | Some f \<Rightarrow>
          Model_predict F #
          (case f F of
             Inl e \<Rightarrow> [St_error (''An error occurred: '' @ str e)]
           | Inr prediction \<Rightarrow>
               (case prediction of
                  [] \<Rightarrow>
                    [St_error (''An error occurred: '' @
                       str (IndexError ''index 0 is out of bounds for axis 0 with size 0''))]
                | p # ps \<Rightarrow>
                    [St_success (''Predicted Total Imputed Cases: '' @ format_3f p)])))"

text \<open>
  One run of the script from line 87 on, for the widget values \<open>i\<close>, the state of the
  \<^verbatim>\<open>Predict\<close> button, the file at the model path and the cache.  The result is an uncaught
  exception or the effects of the run with the cache it leaves.  The static text of the
  page (lines 50 to 58, 85 and 104) carries no data and is left out.  \<^verbatim>\<open>preprocess\<close> runs on
  every run and outside the guarded block, and \<^verbatim>\<open>st.write(input_df)\<close> shows what the store
  holds for \<^verbatim>\<open>input_df\<close> when it is reached.
\<close>

definition main :: "inputs \<Rightarrow> bool \<Rightarrow> artifact \<Rightarrow> cache \<Rightarrow> error + (effect list \<times> cache)" where
  "main i button a c =
     (case preprocess input_df differencing_data (initial_heap i) of
        Inl e \<Rightarrow> Inl e
      | Inr (preprocessed_data, h) \<Rightarrow>
          if button then
            (let ((loading, mdl), c') = load_model a c
             in Inr (loading @
                     [St_write ''**You have submitted the below data.**'',
                      St_write_frame (h input_df)] @
                     predict_block mdl (h preprocessed_data), c'))
          else Inr ([], c))"

text \<open>
  The frame that \<^verbatim>\<open>preprocess\<close> returns on the page, that is what the store holds behind the
  returned reference.
\<close>

definition returned_frame :: "inputs \<Rightarrow> frame" where
  "returned_frame i =
     (case preprocess input_df differencing_data (initial_heap i) of
        Inl e \<Rightarrow> []
      | Inr (r, h) \<Rightarrow> h r)"

text \<open>The effects of a run; a run that ends in an uncaught exception shows none of them.\<close>

definition effects :: "error + (effect list \<times> cache) \<Rightarrow> effect list" where
  "effects r = (case r of Inl e \<Rightarrow> [] | Inr (t, c) \<Rightarrow> t)"

text \<open>A model for tests: \<^verbatim>\<open>predict\<close> returns the one-element array \<open>[x]\<close> for every frame.\<close>

definition constant_model :: "real \<Rightarrow> model" where
  "constant_model x F = Inr [x]"

text \<open>
  Two frames for an example: the baseline frame behind reference 3 has a label, \<^verbatim>\<open>z\<close>, that the
  input frame behind reference 2 does not have.
\<close>

definition example_heap :: heap where
  "example_heap =
     ((\<lambda>r. []) (2 := [(''a'', Int64 5), (''b'', Int64 1), (''c'', Int64 9)]))
       (3 := [(''b'', Int64 3), (''z'', Int64 7), (''c'', Int64 2)])"

section \<open>Frames with distinct labels\<close>

lemma filter_label_distinct:
  "distinct (map fst F) \<Longrightarrow> (c, v) \<in> set F \<Longrightarrow> filter (\<lambda>p. fst p = c) F = [(c, v)]"
proof (induction F)
  case Nil
  then show ?case by simp
next
  case (Cons p F)
  show ?case
  proof (cases "p = (c, v)")
    case True
    with Cons.prems have "c \<notin> fst ` set F" by simp
    then have "filter (\<lambda>p. fst p = c) F = []"
      by (auto simp: filter_empty_conv)
    with True show ?thesis by simp
  next
    case False
    with Cons.prems have in_tl: "(c, v) \<in> set F" by simp
    then have "c \<in> fst ` set F" by force
    with Cons.prems have "fst p \<noteq> c" by auto
    with Cons in_tl show ?thesis by simp
  qed
qed

lemma getitem_distinct:
  "distinct (columns F) \<Longrightarrow> (c, v) \<in> set F \<Longrightarrow> getitem F c = Inr v"
  by (simp add: getitem_def columns_def filter_label_distinct)

lemma getitem_total:
  assumes "distinct (columns F)" and "c \<in> set (columns F)"
  shows "\<exists>v. getitem F c = Inr v"
proof -
  from assms(2) obtain v where "(c, v) \<in> set F"
    by (auto simp: columns_def)
  with assms(1) show ?thesis
    by (blast intro: getitem_distinct)
qed

lemma getitem_InrD:
  assumes "getitem F c = Inr v"
  shows "(c, v) \<in> set F"
proof -
  from assms obtain p where f: "filter (\<lambda>p. fst p = c) F = [p]" and v: "snd p = v"
    by (auto simp: getitem_def split: list.splits)
  have "p \<in> set (filter (\<lambda>p. fst p = c) F)"
    by (simp add: f)
  then have "p \<in> set F" and "fst p = c" by simp_all
  with v show ?thesis by auto
qed

lemma getitem_columns: "getitem F c = Inr v \<Longrightarrow> c \<in> set (columns F)"
  by (force dest: getitem_InrD simp: columns_def)

lemma setitem_present:
  "c \<in> set (columns F) \<Longrightarrow> setitem F c v = map (\<lambda>p. if fst p = c then (fst p, v) else p) F"
  by (simp add: setitem_def)

lemma columns_setitem:
  "c \<in> set (columns F) \<Longrightarrow> columns (setitem F c v) = columns F"
  by (simp add: setitem_present columns_def comp_def if_distrib cong: if_cong)

lemma getitem_setitem_same:
  assumes "distinct (columns F)" and "c \<in> set (columns F)"
  shows "getitem (setitem F c v) c = Inr v"
proof -
  have d: "distinct (columns (setitem F c v))"
    using assms by (simp add: columns_setitem)
  from assms(2) obtain p where "p \<in> set F" and "fst p = c"
    by (auto simp: columns_def)
  then have "(c, v) \<in> set (setitem F c v)"
    using assms(2) by (force simp: setitem_present)
  with d show ?thesis by (rule getitem_distinct)
qed

lemma getitem_setitem_other:
  assumes "c' \<noteq> c"
  shows "getitem (setitem F c v) c' = getitem F c'"
proof -
  have "filter (\<lambda>p. fst p = c') (map (\<lambda>p. if fst p = c then (fst p, v) else p) F)
          = filter (\<lambda>p. fst p = c') F"
    using assms by (induction F) auto
  then have "filter (\<lambda>p. fst p = c') (setitem F c v) = filter (\<lambda>p. fst p = c') F"
    using assms by (simp add: setitem_def)
  then show ?thesis by (simp add: getitem_def)
qed


lemma unique_distinct: "distinct (unique xs)"
  by (simp add: unique_def)

lemma set_unique: "set (unique xs) = set xs"
  by (simp add: unique_def)

lemma distinct_intersection: "distinct (intersection xs ys)"
  by (simp add: intersection_def unique_distinct)

lemma set_intersection: "set (intersection xs ys) = set xs \<inter> set ys"
  by (auto simp: intersection_def set_unique)

lemma adjust_fst: "fst (adjust B cs p) = fst p"
  by (simp add: adjust_def split: sum.splits)

lemma columns_map_adjust: "columns (map (adjust B cs) F) = columns F"
  by (simp add: columns_def comp_def adjust_fst)

text \<open>One pass of the loop body on a column that both frames have.\<close>

lemma difference_column_eq:
  assumes mk: "m \<noteq> k"
    and d: "distinct (columns (h m))"
    and cm: "c \<in> set (columns (h m))"
    and ck: "getitem (h k) c = Inr b"
  shows "difference_column m k c h = Inr (h(m := map (adjust (h k) [c]) (h m)))"
proof -
  from d cm obtain v where v: "getitem (h m) c = Inr v"
    using getitem_total by blast
  define d where "d = subtract v b"
  define h1 where "h1 = h(m := setitem (h m) c d)"
  have sub: "subtract_column m k c h = Inr h1"
    by (simp add: subtract_column_def v ck h1_def d_def)
  have g1: "getitem (h1 m) c = Inr d"
    by (simp add: h1_def getitem_setitem_same d cm)
  have neg: "first_negative m c h1 = Inr (negative d)"
    by (simp add: first_negative_def g1)
  have cells: "\<And>p. p \<in> set (h m) \<Longrightarrow> fst p = c \<Longrightarrow> snd p = v"
  proof -
    fix p assume "p \<in> set (h m)" and "fst p = c"
    then have "(c, snd p) \<in> set (h m)" by (metis prod.collapse)
    moreover have "(c, v) \<in> set (h m)" using v by (rule getitem_InrD)
    ultimately show "snd p = v"
      using d by (metis columns_def eq_key_imp_eq_value)
  qed
  have c1: "c \<in> set (columns (setitem (h m) c d))"
    using cm by (simp add: columns_setitem)
  have pos: "\<not> negative d \<Longrightarrow> setitem (h m) c d = map (adjust (h k) [c]) (h m)"
    using cells by (auto simp: setitem_present cm adjust_def ck d_def)
  have "setitem (setitem (h m) c d) c (Int64 0) =
      map (\<lambda>p. if fst p = c then (fst p, Int64 0) else p) (h m)"
    by (simp add: setitem_present [OF c1]) (simp add: setitem_present [OF cm] comp_def if_distrib cong: if_cong)
  moreover have "negative d \<Longrightarrow>
      map (\<lambda>p. if fst p = c then (fst p, Int64 0) else p) (h m) = map (adjust (h k) [c]) (h m)"
    using cells by (auto simp: adjust_def ck d_def)
  ultimately have zero: "negative d \<Longrightarrow>
      setitem (setitem (h m) c d) c (Int64 0) = map (adjust (h k) [c]) (h m)"
    by simp
  have "difference_column m k c h =
      Inr (if negative d then h1(m := setitem (h1 m) c (Int64 0)) else h1)"
    by (simp add: difference_column_def sub neg)
  also have "(if negative d then h1(m := setitem (h1 m) c (Int64 0)) else h1) =
      h(m := map (adjust (h k) [c]) (h m))"
    using pos zero by (simp add: h1_def)
  finally show ?thesis .
qed

lemma getitem_map_adjust_other:
  assumes "c \<notin> set cs"
  shows "getitem (map (adjust B cs) F) c = getitem F c"
proof -
  have "filter (\<lambda>p. fst p = c) (map (adjust B cs) F) = filter (\<lambda>p. fst p = c) F"
    using assms by (induction F) (auto simp: adjust_def split: sum.splits)
  then show ?thesis by (simp add: getitem_def)
qed

lemma adjust_adjust:
  assumes "c \<notin> set cs"
  shows "adjust B cs (adjust B [c] p) = adjust B (c # cs) p"
  using assms by (auto simp: adjust_def split: sum.splits)

lemma preprocess_loop_eq:
  assumes "m \<noteq> k"
    and "distinct (columns (h m))"
    and "distinct cs"
    and "set cs \<subseteq> set (columns (h m))"
    and "\<forall>c \<in> set cs. \<exists>b. getitem (h k) c = Inr b"
  shows "preprocess_loop m k cs h = Inr (h(m := map (adjust (h k) cs) (h m)))"
  using assms
proof (induction cs arbitrary: h)
  case Nil
  have "adjust (h k) [] = (\<lambda>p. p)"
    by (simp add: adjust_def fun_eq_iff)
  then show ?case by simp
next
  case (Cons c cs)
  from Cons.prems obtain b where b: "getitem (h k) c = Inr b" by auto
  define h' where "h' = h(m := map (adjust (h k) [c]) (h m))"
  have step: "difference_column m k c h = Inr h'"
    unfolding h'_def using Cons.prems b by (intro difference_column_eq) auto
  have k': "h' k = h k" using Cons.prems(1) by (simp add: h'_def)
  have cols: "columns (h' m) = columns (h m)"
    by (simp add: h'_def columns_map_adjust)
  have rest: "preprocess_loop m k cs h' = Inr (h'(m := map (adjust (h' k) cs) (h' m)))"
    using Cons.prems by (intro Cons.IH) (auto simp: k' cols)
  have "map (adjust (h k) cs) (h' m) = map (adjust (h k) (c # cs)) (h m)"
    using Cons.prems(3) by (simp add: h'_def adjust_adjust)
  then have "h'(m := map (adjust (h' k) cs) (h' m)) = h(m := map (adjust (h k) (c # cs)) (h m))"
    by (simp only: k') (simp add: h'_def)
  with rest have "preprocess_loop m k cs h' = Inr (h(m := map (adjust (h k) (c # cs)) (h m)))"
    by simp
  then show ?case
    by (simp add: step fun_upd_def)
qed

lemma preprocess_eq:
  assumes "m \<noteq> k" and "distinct (columns (h m))" and "distinct (columns (h k))"
  shows "preprocess m k h =
    Inr (m, h(m := map (adjust (h k) (intersection (columns (h m)) (columns (h k)))) (h m)))"
proof -
  have "\<forall>c \<in> set (intersection (columns (h m)) (columns (h k))). \<exists>b. getitem (h k) c = Inr b"
    using assms(3) by (auto simp: set_intersection intro: getitem_total)
  then have "preprocess_loop m k (intersection (columns (h m)) (columns (h k))) h =
      Inr (h(m := map (adjust (h k) (intersection (columns (h m)) (columns (h k)))) (h m)))"
    using assms by (intro preprocess_loop_eq) (auto simp: distinct_intersection set_intersection)
  then show ?thesis by (simp add: preprocess_def)
qed


section \<open>Arithmetic of the cells\<close>

subsection \<open>Rounding to an integer\<close>

lemma round_half_even_nonneg: "0 \<le> y \<Longrightarrow> 0 \<le> round_half_even y"
  by (auto simp: round_half_even_def Let_def)

lemma round_half_even_of_int: "round_half_even (of_int n) = n"
  by (simp add: round_half_even_def)

lemma round_half_even_neg:
  assumes "y \<le> - 1"
  shows "round_half_even y \<le> - 1"
proof -
  have f: "\<lfloor>y\<rfloor> \<le> - 1" using assms by linarith
  show ?thesis
  proof (cases "\<lfloor>y\<rfloor> = - 1")
    case True
    then have "- 1 \<le> y" by linarith
    with assms have "y = of_int (- 1)" by simp
    then show ?thesis by (simp only: round_half_even_of_int)
  next
    case False
    with f have "\<lfloor>y\<rfloor> \<le> - 2" by linarith
    moreover have "round_half_even y \<le> \<lfloor>y\<rfloor> + 1"
      by (simp add: round_half_even_def Let_def)
    ultimately show ?thesis by linarith
  qed
qed

subsection \<open>The binary exponent\<close>

lemma powr_powi: "(2::real) powr real_of_int k = 2 powi k"
  by (simp add: powr_real_of_int')

lemma floor_log2_iff:
  assumes "x \<noteq> 0"
  shows "\<lfloor>log 2 \<bar>x\<bar>\<rfloor> = e \<longleftrightarrow> 2 powi e \<le> \<bar>x\<bar> \<and> \<bar>x\<bar> < 2 powi (e + 1)"
proof -
  have pos: "0 < \<bar>x\<bar>" using assms by simp
  show ?thesis
    using floor_log_eq_powr_iff [OF pos, of 2 e] by (simp only: powr_powi)
qed

lemma floor_log2_bounds:
  assumes "x \<noteq> 0"
  shows "2 powi \<lfloor>log 2 \<bar>x\<bar>\<rfloor> \<le> \<bar>x\<bar>" and "\<bar>x\<bar> < 2 powi (\<lfloor>log 2 \<bar>x\<bar>\<rfloor> + 1)"
  using floor_log2_iff [OF assms, of "\<lfloor>log 2 \<bar>x\<bar>\<rfloor>"] by simp_all

lemma bracket_nonzero:
  assumes "2 powi e \<le> \<bar>x::real\<bar>"
  shows "x \<noteq> 0"
proof
  assume "x = 0"
  with assms have "(2::real) powi e \<le> 0" by simp
  moreover have "(0::real) < 2 powi e" by (rule zero_less_power_int) simp
  ultimately show False by linarith
qed

lemma floor_log2_eq:
  assumes "2 powi e \<le> \<bar>x\<bar>" and "\<bar>x\<bar> < 2 powi (e + 1)"
  shows "\<lfloor>log 2 \<bar>x\<bar>\<rfloor> = e"
  using floor_log2_iff [OF bracket_nonzero [OF assms(1)], of e] assms by simp

subsection \<open>Rounding to the \<^verbatim>\<open>float64\<close> grid\<close>

text \<open>The rounding of a number whose binary exponent is known.\<close>

lemma round64_bracket:
  assumes "2 powi e \<le> \<bar>x\<bar>" and "\<bar>x\<bar> < 2 powi (e + 1)" and "- 1022 \<le> e"
  shows "round64 x = of_int (round_half_even (x / 2 powi (e - 52))) * 2 powi (e - 52)"
proof -
  have "x \<noteq> 0" using assms(1) by (rule bracket_nonzero)
  moreover have "\<lfloor>log 2 \<bar>x\<bar>\<rfloor> = e" using assms(1,2) by (rule floor_log2_eq)
  ultimately show ?thesis
    using assms(3) by (simp add: round64_def Let_def max_def)
qed

lemma round64_nonneg:
  assumes "0 \<le> x"
  shows "0 \<le> round64 x"
proof (cases "x = 0")
  case True
  then show ?thesis by (simp add: round64_def)
next
  case False
  define u :: real where "u = 2 powi (max \<lfloor>log 2 \<bar>x\<bar>\<rfloor> (- 1022) - 52)"
  have u: "0 < u" unfolding u_def by (rule zero_less_power_int) simp
  with assms have "0 \<le> x / u" by simp
  then have "0 \<le> round_half_even (x / u)" by (rule round_half_even_nonneg)
  with u have "0 \<le> of_int (round_half_even (x / u)) * u" by simp
  with False show ?thesis by (simp add: round64_def Let_def u_def)
qed

text \<open>A negative number that is not closer to 0 than the smallest float stays negative.\<close>

lemma round64_neg:
  assumes "x \<le> - (2 powi (- 1074))"
  shows "round64 x < 0"
proof -
  have small: "(0::real) < 2 powi (- 1074)" by (rule zero_less_power_int) simp
  with assms have neg: "x < 0" and nz: "x \<noteq> 0" by linarith+
  define e where "e = max \<lfloor>log 2 \<bar>x\<bar>\<rfloor> (- 1022)"
  define u :: real where "u = 2 powi (e - 52)"
  have u: "0 < u" unfolding u_def by (rule zero_less_power_int) simp
  have "u \<le> \<bar>x\<bar>"
  proof (cases "- 1022 \<le> \<lfloor>log 2 \<bar>x\<bar>\<rfloor>")
    case True
    then have "e = \<lfloor>log 2 \<bar>x\<bar>\<rfloor>" by (simp add: e_def)
    then have "u \<le> 2 powi \<lfloor>log 2 \<bar>x\<bar>\<rfloor>"
      unfolding u_def by (intro power_int_increasing) simp_all
    also have "\<dots> \<le> \<bar>x\<bar>" using nz by (rule floor_log2_bounds)
    finally show ?thesis .
  next
    case False
    then have "e = - 1022" by (simp add: e_def)
    then have "u = 2 powi (- 1074)" by (simp add: u_def)
    with assms neg show ?thesis by simp
  qed
  with neg have "u \<le> - x" by simp
  with u have "x / u \<le> - 1" by (simp add: field_simps)
  then have "round_half_even (x / u) \<le> - 1" by (rule round_half_even_neg)
  then have "real_of_int (round_half_even (x / u)) \<le> - 1" by linarith
  with u have "of_int (round_half_even (x / u)) * u < 0"
    by (simp add: mult_less_0_iff)
  with nz show ?thesis by (simp add: round64_def Let_def u_def e_def)
qed

text \<open>Every finite \<^verbatim>\<open>float64\<close> is a multiple of the smallest one.\<close>

lemma is_float64_grid:
  assumes "is_float64 x"
  shows "\<exists>k::int. x = of_int k * 2 powi (- 1074)"
proof (cases "x = 0")
  case True
  then have "x = of_int 0 * 2 powi (- 1074)" by simp
  then show ?thesis ..
next
  case False
  define e where "e = max \<lfloor>log 2 \<bar>x\<bar>\<rfloor> (- 1022)"
  define n where "n = round_half_even (x / 2 powi (e - 52))"
  have e: "- 1022 \<le> e" by (simp add: e_def)
  from assms False have x: "x = of_int n * 2 powi (e - 52)"
    by (simp add: is_float64_def round64_def Let_def e_def n_def)
  have "(2::real) powi (e - 52) = 2 powi ((e + 1022) + (- 1074))" by simp
  also have "\<dots> = 2 powi (e + 1022) * 2 powi (- 1074)"
    by (rule power_int_add) simp
  also have "(2::real) powi (e + 1022) = of_int (2 ^ nat (e + 1022))"
    using e by (simp add: power_int_def)
  finally have "x = of_int (n * 2 ^ nat (e + 1022)) * 2 powi (- 1074)"
    using x by simp
  then show ?thesis ..
qed

text \<open>The rounded difference of two floats is negative exactly when the difference is.\<close>

lemma round64_difference_negative:
  assumes "is_float64 x" and "is_float64 y"
  shows "round64 (x - y) < 0 \<longleftrightarrow> x < y"
proof
  assume "round64 (x - y) < 0"
  then have "\<not> 0 \<le> x - y" using round64_nonneg [of "x - y"] by linarith
  then show "x < y" by simp
next
  assume less: "x < y"
  from assms obtain k l :: int
    where x: "x = of_int k * 2 powi (- 1074)" and y: "y = of_int l * 2 powi (- 1074)"
    using is_float64_grid by blast
  have small: "(0::real) < 2 powi (- 1074)" by (rule zero_less_power_int) simp
  from less x y small have "real_of_int k < real_of_int l"
    by (simp add: mult_less_cancel_right)
  then have "k - l \<le> - 1" by linarith
  then have "real_of_int (k - l) \<le> - 1" by linarith
  then have "real_of_int (k - l) * 2 powi (- 1074) \<le> - 1 * 2 powi (- 1074)"
    using small by (intro mult_right_mono) simp_all
  moreover have "x - y = real_of_int (k - l) * 2 powi (- 1074)"
    by (simp add: x y algebra_simps)
  ultimately have "x - y \<le> - (2 powi (- 1074))" by simp
  then show "round64 (x - y) < 0" by (rule round64_neg)
qed

lemma negative_to_float64:
  assumes "is_float64 x" and "is_float64 y"
  shows "negative (Float64 (to_float64 (x - y))) \<longleftrightarrow> x < y"
proof -
  have sign: "round64 (x - y) < 0 \<longleftrightarrow> x < y"
    using assms by (rule round64_difference_negative)
  consider "2 ^ 1024 \<le> round64 (x - y)" | "round64 (x - y) \<le> - (2 ^ 1024)"
    | "\<not> 2 ^ 1024 \<le> round64 (x - y)" "\<not> round64 (x - y) \<le> - (2 ^ 1024)"
    by blast
  then show ?thesis
  proof cases
    case 1
    have "(0::real) < 2 ^ 1024" by simp
    with 1 have "\<not> round64 (x - y) < 0" by linarith
    with 1 sign show ?thesis by (simp add: to_float64_def)
  next
    case 2
    have "(0::real) < 2 ^ 1024" by simp
    with 2 have "round64 (x - y) < 0" by linarith
    moreover from this have "\<not> 2 ^ 1024 \<le> round64 (x - y)" by simp
    ultimately show ?thesis using 2 sign by (simp add: to_float64_def)
  next
    case 3
    with sign show ?thesis by (simp add: to_float64_def)
  qed
qed

subsection \<open>The constants of the page\<close>

lemma round64_959: "round64 959 = 959"
  using round64_bracket [of 9 959]
  by (simp add: round_half_even_def power_int_minus)

lemma is_float64_959: "is_float64 959"
  by (simp add: is_float64_def round64_959)

lemma as_float64_959: "as_float64 (Int64 959) = Finite 959"
  by (simp add: to_float64_def round64_959)

lemma round64_13_89: "round64 13.89 = 977421856627753 / 70368744177664"
  using round64_bracket [of 3 "13.89"]
  by (simp add: round_half_even_def power_int_minus)

lemma to_float64_13_89: "to_float64 13.89 = Finite (977421856627753 / 70368744177664)"
  unfolding to_float64_def round64_13_89 by simp

lemma is_float64_13_89: "is_float64 (977421856627753 / 70368744177664)"
  using round64_bracket [of 3 "977421856627753 / 70368744177664"]
  by (simp add: is_float64_def round_half_even_def power_int_minus)

lemma is_float64_0: "is_float64 0"
  by (simp add: is_float64_def round64_def)

lemma is_float64_5: "is_float64 5"
  using round64_bracket [of 2 5]
  by (simp add: is_float64_def round_half_even_def power_int_minus)

lemma is_float64_14: "is_float64 14"
  using round64_bracket [of 3 14]
  by (simp add: is_float64_def round_half_even_def power_int_minus)

text \<open>No float lies between the literal \<^verbatim>\<open>13.89\<close> and the float that stands for it.\<close>

lemma below_13_89:
  assumes "is_float64 x"
  shows "x < 977421856627753 / 70368744177664 \<longleftrightarrow> x < 13.89"
proof
  assume "x < 13.89"
  then show "x < 977421856627753 / 70368744177664" by simp
next
  assume below: "x < 977421856627753 / 70368744177664"
  show "x < 13.89"
  proof (rule ccontr)
    assume "\<not> x < 13.89"
    then have above: "13.89 \<le> x" by simp
    from above have lo: "2 powi 3 \<le> \<bar>x\<bar>" by simp
    from above below have hi: "\<bar>x\<bar> < 2 powi (3 + 1)" by simp
    define n where "n = round_half_even (x / 2 powi (3 - 52))"
    from assms have "x = round64 x" by (simp add: is_float64_def)
    also have "\<dots> = of_int n * 2 powi (3 - 52)"
      unfolding n_def using lo hi by (rule round64_bracket) simp
    finally have x: "x = real_of_int n / 562949953421312"
      by (simp add: power_int_minus field_simps)
    from below x have "real_of_int n < 7819374853022024" by simp
    then have "n \<le> 7819374853022023" by simp
    then have "real_of_int n \<le> 7819374853022023" by linarith
    with x have "x \<le> 7819374853022023 / 562949953421312" by simp
    with above show False by simp
  qed
qed

subsection \<open>Differences of \<^verbatim>\<open>int64\<close> cells\<close>

lemma sint_diff_exact:
  fixes a b :: "64 word"
  assumes "- (2 ^ 63) \<le> sint a - sint b" and "sint a - sint b < 2 ^ 63"
  shows "sint (a - b) = sint a - sint b"
  using assms by (simp add: sint_word_diff signed_take_bit_int_eq_self)

lemma sint_diff_baseline:
  fixes a b :: "64 word"
  assumes "0 \<le> sint a" and "0 \<le> sint b"
  shows "sint (a - b) = sint a - sint b"
proof -
  have "sint a < 2 ^ 63" "sint b < 2 ^ 63"
    using sint_lt [of a] sint_lt [of b] by simp_all
  with assms show ?thesis
    by (intro sint_diff_exact) simp_all
qed

section \<open>The frames of the page\<close>

lemma distinct_input_frame: "distinct (columns (input_frame i))"
  by (simp add: columns_def input_frame_def)

lemma distinct_differenced_features: "distinct (columns differenced_features)"
  by (simp add: columns_def differenced_features_def)

lemma common_columns_page:
  "intersection (columns (input_frame i)) (columns differenced_features) =
     [''fullyVaccinated'', ''new_people_vaccinated_smoothed'', ''partiallyVaccinated'',
      ''stringency_index'', ''totalTests'', ''totalVaccinations'']"
  by (simp add: intersection_def unique_def columns_def input_frame_def differenced_features_def)

lemma getitem_differenced_features:
  "getitem differenced_features ''fullyVaccinated'' = Inr (Int64 9327654)"
  "getitem differenced_features ''new_people_vaccinated_smoothed'' = Inr (Int64 959)"
  "getitem differenced_features ''partiallyVaccinated'' = Inr (Int64 4663827)"
  "getitem differenced_features ''stringency_index'' =
     Inr (Float64 (Finite (977421856627753 / 70368744177664)))"
  "getitem differenced_features ''totalTests'' = Inr (Int64 4166833)"
  "getitem differenced_features ''totalVaccinations'' = Inr (Int64 9982068)"
  unfolding differenced_features_def to_float64_13_89
  by (simp_all add: getitem_def)

lemma getitem_input_frame:
  "getitem (input_frame i) ''fullyVaccinated'' = Inr (Int64 (fullyVaccinated i))"
  "getitem (input_frame i) ''new_people_vaccinated_smoothed'' =
     Inr (Float64 (Finite (new_people_vaccinated_smoothed i)))"
  "getitem (input_frame i) ''partiallyVaccinated'' = Inr (Int64 (partiallyVaccinated i))"
  "getitem (input_frame i) ''stringency_index'' = Inr (Float64 (Finite (stringency_index i)))"
  "getitem (input_frame i) ''totalTests'' = Inr (Int64 (totalTests i))"
  "getitem (input_frame i) ''totalVaccinations'' = Inr (Int64 (totalVaccinations i))"
  by (simp_all add: getitem_def input_frame_def)

lemma initial_heap_simps:
  "initial_heap i input_df = input_frame i"
  "initial_heap i differencing_data = differenced_features"
  "input_df \<noteq> differencing_data"
  by (simp_all add: initial_heap_def input_df_def differencing_data_def)

text \<open>The six cells that the loop writes, for any widget values.\<close>

lemma adjust_page:
  "map (adjust differenced_features
         [''fullyVaccinated'', ''new_people_vaccinated_smoothed'', ''partiallyVaccinated'',
          ''stringency_index'', ''totalTests'', ''totalVaccinations''])
       (input_frame i) =
     [(''fullyVaccinated'', floored (Int64 (fullyVaccinated i - 9327654))),
      (''new_deaths_smoothed'', Float64 (Finite (new_deaths_smoothed i))),
      (''new_people_vaccinated_smoothed'',
         floored (Float64 (to_float64 (new_people_vaccinated_smoothed i - 959)))),
      (''new_vaccinations_smoothed'', Float64 (Finite (new_vaccinations_smoothed i))),
      (''partiallyVaccinated'', floored (Int64 (partiallyVaccinated i - 4663827))),
      (''stringency_index'',
         floored (Float64 (to_float64
           (stringency_index i - 977421856627753 / 70368744177664)))),
      (''test24hours'', Float64 (Finite (test24hours i))),
      (''totalTests'', floored (Int64 (totalTests i - 4166833))),
      (''totalVaccinations'', floored (Int64 (totalVaccinations i - 9982068))),
      (''vaccinated24hours'', Float64 (Finite (vaccinated24hours i))),
      (''rfh'', Float64 (Finite (rfh i))),
      (''r3h'', Float64 (Finite (r3h i))),
      (''month'', Int64 (month i)),
      (''day_of_week'', Int64 (day_of_week i))]"
proof -
  have nine: "as_float64 (Int64 959) = Finite 959"
    by (rule as_float64_959)
  show ?thesis
    unfolding input_frame_def
    by (simp del: as_float64.simps
        add: adjust_def getitem_differenced_features floored_def nine as_float64.simps(2))
qed

lemma preprocess_page:
  "preprocess input_df differencing_data (initial_heap i) =
     Inr (input_df, (initial_heap i)(input_df :=
       [(''fullyVaccinated'', floored (Int64 (fullyVaccinated i - 9327654))),
        (''new_deaths_smoothed'', Float64 (Finite (new_deaths_smoothed i))),
        (''new_people_vaccinated_smoothed'',
           floored (Float64 (to_float64 (new_people_vaccinated_smoothed i - 959)))),
        (''new_vaccinations_smoothed'', Float64 (Finite (new_vaccinations_smoothed i))),
        (''partiallyVaccinated'', floored (Int64 (partiallyVaccinated i - 4663827))),
        (''stringency_index'',
           floored (Float64 (to_float64
             (stringency_index i - 977421856627753 / 70368744177664)))),
        (''test24hours'', Float64 (Finite (test24hours i))),
        (''totalTests'', floored (Int64 (totalTests i - 4166833))),
        (''totalVaccinations'', floored (Int64 (totalVaccinations i - 9982068))),
        (''vaccinated24hours'', Float64 (Finite (vaccinated24hours i))),
        (''rfh'', Float64 (Finite (rfh i))),
        (''r3h'', Float64 (Finite (r3h i))),
        (''month'', Int64 (month i)),
        (''day_of_week'', Int64 (day_of_week i))]))"
proof -
  have "preprocess input_df differencing_data (initial_heap i) =
      Inr (input_df, (initial_heap i)(input_df :=
        map (adjust differenced_features
              (intersection (columns (input_frame i)) (columns differenced_features)))
            (input_frame i)))"
    using preprocess_eq [of input_df differencing_data "initial_heap i"]
    by (simp add: initial_heap_simps distinct_input_frame distinct_differenced_features)
  then show ?thesis
    by (simp only: common_columns_page adjust_page)
qed

lemma returned_frame_eq:
  "returned_frame i =
     [(''fullyVaccinated'', floored (Int64 (fullyVaccinated i - 9327654))),
      (''new_deaths_smoothed'', Float64 (Finite (new_deaths_smoothed i))),
      (''new_people_vaccinated_smoothed'',
         floored (Float64 (to_float64 (new_people_vaccinated_smoothed i - 959)))),
      (''new_vaccinations_smoothed'', Float64 (Finite (new_vaccinations_smoothed i))),
      (''partiallyVaccinated'', floored (Int64 (partiallyVaccinated i - 4663827))),
      (''stringency_index'',
         floored (Float64 (to_float64
           (stringency_index i - 977421856627753 / 70368744177664)))),
      (''test24hours'', Float64 (Finite (test24hours i))),
      (''totalTests'', floored (Int64 (totalTests i - 4166833))),
      (''totalVaccinations'', floored (Int64 (totalVaccinations i - 9982068))),
      (''vaccinated24hours'', Float64 (Finite (vaccinated24hours i))),
      (''rfh'', Float64 (Finite (rfh i))),
      (''r3h'', Float64 (Finite (r3h i))),
      (''month'', Int64 (month i)),
      (''day_of_week'', Int64 (day_of_week i))]"
  by (simp add: returned_frame_def preprocess_page)

lemma preprocess_page_returned:
  "preprocess input_df differencing_data (initial_heap i) =
     Inr (input_df, (initial_heap i)(input_df := returned_frame i))"
  by (simp only: preprocess_page returned_frame_eq)

text \<open>The cells of the six columns in the returned frame.\<close>

lemma getitem_returned_frame:
  "getitem (returned_frame i) ''fullyVaccinated'' =
     Inr (floored (Int64 (fullyVaccinated i - 9327654)))"
  "getitem (returned_frame i) ''new_people_vaccinated_smoothed'' =
     Inr (floored (Float64 (to_float64 (new_people_vaccinated_smoothed i - 959))))"
  "getitem (returned_frame i) ''partiallyVaccinated'' =
     Inr (floored (Int64 (partiallyVaccinated i - 4663827)))"
  "getitem (returned_frame i) ''stringency_index'' =
     Inr (floored (Float64 (to_float64
       (stringency_index i - 977421856627753 / 70368744177664))))"
  "getitem (returned_frame i) ''totalTests'' = Inr (floored (Int64 (totalTests i - 4166833)))"
  "getitem (returned_frame i) ''totalVaccinations'' =
     Inr (floored (Int64 (totalVaccinations i - 9982068)))"
  unfolding returned_frame_eq by (simp_all add: getitem_def)

text \<open>When the floor applies, by dtype.\<close>

lemma floored_int:
  fixes a b :: "64 word"
  assumes "0 \<le> sint a" and "0 \<le> sint b"
  shows "floored (Int64 (a - b)) = (if sint b \<le> sint a then Int64 (a - b) else Int64 0)"
  using sint_diff_baseline [OF assms] by (simp add: floored_def)

lemma floored_float:
  assumes "is_float64 x" and "is_float64 y"
  shows "floored (Float64 (to_float64 (x - y))) =
         (if y \<le> x then Float64 (to_float64 (x - y)) else Int64 0)"
  using negative_to_float64 [OF assms] by (simp add: floored_def not_less)

lemma getitem_map_adjust_common:
  assumes d: "distinct (columns F)"
    and v: "getitem F c = Inr v"
    and b: "getitem B c = Inr b"
    and c: "c \<in> set cs"
  shows "getitem (map (adjust B cs) F) c = Inr (if negative (subtract v b) then Int64 0 else subtract v b)"
proof -
  have "(c, v) \<in> set F" using v by (rule getitem_InrD)
  then have "adjust B cs (c, v) \<in> set (map (adjust B cs) F)" by simp
  moreover have "adjust B cs (c, v) = (c, if negative (subtract v b) then Int64 0 else subtract v b)"
    using b c by (simp add: adjust_def)
  ultimately have "(c, if negative (subtract v b) then Int64 0 else subtract v b) \<in> set (map (adjust B cs) F)"
    by simp
  moreover have "distinct (columns (map (adjust B cs) F))"
    using d by (simp add: columns_map_adjust)
  ultimately show ?thesis by (intro getitem_distinct)
qed

lemma main_trigger:
  "main i True a c =
     Inr (fst (fst (load_model a c)) @
          [St_write ''**You have submitted the below data.**'',
           St_write_frame (returned_frame i)] @
          predict_block (snd (fst (load_model a c))) (returned_frame i),
          snd (load_model a c))"
  by (simp add: main_def preprocess_page_returned split: prod.splits)

lemma main_idle: "main i False a c = Inr ([], c)"
  by (simp add: main_def preprocess_page_returned)

lemma format_3f_example: "format_3f 123.456 = '' 123.456''"
  by (simp add: format_3f_def round_half_even_def digit_char_def)

lemma load_model_fresh_missing:
  "load_model Missing None =
     (([Os_path_exists model_path, St_error not_found_message], None),
      Some (None, [St_error not_found_message]))"
  by (simp add: load_model_def load_model_body_def)

lemma load_model_fresh_corrupt:
  "load_model (Corrupt e) None =
     (([Os_path_exists model_path, Joblib_load model_path,
        St_error (''An error occured while loading the model: '' @ str e)], None),
      Some (None, [St_error (''An error occured while loading the model: '' @ str e)]))"
  by (simp add: load_model_def load_model_body_def)

lemma load_model_fresh_stored:
  "load_model (Stored mdl) None =
     (([Os_path_exists model_path, Joblib_load model_path], Some mdl), Some (Some mdl, []))"
  by (simp add: load_model_def load_model_body_def)

lemma load_model_cached:
  "load_model a (Some (mdl, elements)) = ((elements, mdl), Some (mdl, elements))"
  by (simp add: load_model_def)

lemma clamped_columns_eq:
  assumes "m \<noteq> k"
    and "distinct (columns (h m))"
    and "distinct cs"
    and "set cs \<subseteq> set (columns (h m))"
    and "\<forall>c \<in> set cs. \<exists>b. getitem (h k) c = Inr b"
  shows "clamped_columns m k cs h = filter (negative_difference (h m) (h k)) cs"
  using assms
proof (induction cs arbitrary: h)
  case Nil
  then show ?case by simp
next
  case (Cons c cs)
  from Cons.prems obtain b where b: "getitem (h k) c = Inr b" by auto
  from Cons.prems have cm: "c \<in> set (columns (h m))" by simp
  with Cons.prems obtain v where v: "getitem (h m) c = Inr v"
    using getitem_total by blast
  define h1 where "h1 = h(m := setitem (h m) c (subtract v b))"
  define h' where "h' = h(m := map (adjust (h k) [c]) (h m))"
  have sub: "subtract_column m k c h = Inr h1"
    by (simp add: subtract_column_def v b h1_def)
  have neg: "first_negative m c h1 = Inr (negative (subtract v b))"
    using Cons.prems(2) cm by (simp add: first_negative_def h1_def getitem_setitem_same)
  have step: "difference_column m k c h = Inr h'"
    unfolding h'_def using Cons.prems b by (intro difference_column_eq) auto
  have k': "h' k = h k" using Cons.prems(1) by (simp add: h'_def)
  have cols: "columns (h' m) = columns (h m)"
    by (simp add: h'_def columns_map_adjust)
  have rest: "clamped_columns m k cs h' = filter (negative_difference (h' m) (h' k)) cs"
    using Cons.prems by (intro Cons.IH) (auto simp: k' cols)
  have same: "negative_difference (h' m) (h' k) x = negative_difference (h m) (h k) x"
    if "x \<in> set cs" for x
  proof -
    from that Cons.prems(3) have "x \<notin> set [c]" by auto
    then have "getitem (h' m) x = getitem (h m) x"
      unfolding h'_def by (simp add: getitem_map_adjust_other)
    then show ?thesis by (simp add: negative_difference_def k')
  qed
  have here: "negative_difference (h m) (h k) c \<longleftrightarrow> negative (subtract v b)"
    by (simp add: negative_difference_def v b)
  have "filter (negative_difference (h' m) (h' k)) cs = filter (negative_difference (h m) (h k)) cs"
    using same by (intro filter_cong) auto
  with rest have "clamped_columns m k cs h' = filter (negative_difference (h m) (h k)) cs"
    by simp
  then show ?case
    by (simp add: sub neg step here)
qed

lemma predict_block_None:
  "predict_block None F = [St_error (''An error occurred: '' @ none_has_no_predict)]"
  by (simp add: predict_block_def)

lemma predict_block_constant:
  "predict_block (Some (constant_model x)) F =
     [Model_predict F, St_success (''Predicted Total Imputed Cases: '' @ format_3f x)]"
  by (simp add: predict_block_def constant_model_def)

lemma main_missing_fresh:
  "main i True Missing None =
     Inr ([Os_path_exists model_path, St_error not_found_message,
           St_write ''**You have submitted the below data.**'',
           St_write_frame (returned_frame i),
           St_error (''An error occurred: '' @ none_has_no_predict)],
          Some (None, [St_error not_found_message]))"
  by (simp add: main_trigger load_model_fresh_missing predict_block_None)

lemma main_failure_cached:
  "main i True a (Some (None, [St_error not_found_message])) =
     Inr ([St_error not_found_message,
           St_write ''**You have submitted the below data.**'',
           St_write_frame (returned_frame i),
           St_error (''An error occurred: '' @ none_has_no_predict)],
          Some (None, [St_error not_found_message]))"
  by (simp add: main_trigger load_model_cached predict_block_None)

lemma main_constant_fresh:
  "main i True (Stored (constant_model x)) None =
     Inr ([Os_path_exists model_path, Joblib_load model_path,
           St_write ''**You have submitted the below data.**'',
           St_write_frame (returned_frame i),
           Model_predict (returned_frame i),
           St_success (''Predicted Total Imputed Cases: '' @ format_3f x)],
          Some (Some (constant_model x), []))"
  by (simp add: main_trigger load_model_fresh_stored predict_block_constant)

lemma main_constant_cached:
  "main i True a (Some (Some (constant_model x), [])) =
     Inr ([St_write ''**You have submitted the below data.**'',
           St_write_frame (returned_frame i),
           Model_predict (returned_frame i),
           St_success (''Predicted Total Imputed Cases: '' @ format_3f x)],
          Some (Some (constant_model x), []))"
  by (simp add: main_trigger load_model_cached predict_block_constant)

subsection \<open>The frames at the example values\<close>

lemma input_frame_minimum:
  "input_frame minimum_inputs =
     [(''fullyVaccinated'', Int64 9327654), (''new_deaths_smoothed'', Float64 (Finite 0)),
      (''new_people_vaccinated_smoothed'', Float64 (Finite 0)),
      (''new_vaccinations_smoothed'', Float64 (Finite 0)),
      (''partiallyVaccinated'', Int64 4663827), (''stringency_index'', Float64 (Finite 0)),
      (''test24hours'', Float64 (Finite 0)), (''totalTests'', Int64 4166833),
      (''totalVaccinations'', Int64 9982068), (''vaccinated24hours'', Float64 (Finite 0)),
      (''rfh'', Float64 (Finite 0)), (''r3h'', Float64 (Finite 0)),
      (''month'', Int64 1), (''day_of_week'', Int64 0)]"
  by (simp add: input_frame_def minimum_inputs_def)

lemma returned_frame_minimum:
  "returned_frame minimum_inputs =
     [(''fullyVaccinated'', Int64 0), (''new_deaths_smoothed'', Float64 (Finite 0)),
      (''new_people_vaccinated_smoothed'', Int64 0),
      (''new_vaccinations_smoothed'', Float64 (Finite 0)),
      (''partiallyVaccinated'', Int64 0), (''stringency_index'', Int64 0),
      (''test24hours'', Float64 (Finite 0)), (''totalTests'', Int64 0),
      (''totalVaccinations'', Int64 0), (''vaccinated24hours'', Float64 (Finite 0)),
      (''rfh'', Float64 (Finite 0)), (''r3h'', Float64 (Finite 0)),
      (''month'', Int64 1), (''day_of_week'', Int64 0)]"
proof -
  have a: "floored (Float64 (to_float64 (- 959))) = Int64 0"
    using floored_float [OF is_float64_0 is_float64_959] by simp
  have b: "floored (Float64 (to_float64 (- (977421856627753 / 70368744177664)))) = Int64 0"
    using floored_float [OF is_float64_0 is_float64_13_89] by simp
  have c: "floored (Int64 0) = Int64 0"
    by (simp add: floored_def)
  show ?thesis
    by (simp add: returned_frame_eq minimum_inputs_def a b c)
qed

lemma to_float64_example:
  "to_float64 (7740561859543 / 70368744177664) = Finite (7740561859543 / 70368744177664)"
proof -
  have "round64 (7740561859543 / 70368744177664) = 7740561859543 / 70368744177664"
    using round64_bracket [of "- 4" "7740561859543 / 70368744177664"]
    by (simp add: round_half_even_def power_int_minus)
  then show ?thesis
    unfolding to_float64_def by simp
qed

lemma returned_frame_example:
  "returned_frame example_inputs =
     [(''fullyVaccinated'', Int64 46), (''new_deaths_smoothed'', Float64 (Finite 0)),
      (''new_people_vaccinated_smoothed'', Int64 0),
      (''new_vaccinations_smoothed'', Float64 (Finite 0)),
      (''partiallyVaccinated'', Int64 0),
      (''stringency_index'', Float64 (Finite (7740561859543 / 70368744177664))),
      (''test24hours'', Float64 (Finite 0)), (''totalTests'', Int64 0),
      (''totalVaccinations'', Int64 0), (''vaccinated24hours'', Float64 (Finite 0)),
      (''rfh'', Float64 (Finite 0)), (''r3h'', Float64 (Finite 0)),
      (''month'', Int64 1), (''day_of_week'', Int64 0)]"
proof -
  have a: "floored (Float64 (to_float64 (- 954))) = Int64 0"
    using floored_float [OF is_float64_5 is_float64_959] by simp
  have b: "floored (Float64 (to_float64 (7740561859543 / 70368744177664))) =
      Float64 (Finite (7740561859543 / 70368744177664))"
    using floored_float [OF is_float64_14 is_float64_13_89]
    by (simp add: to_float64_example)
  have c: "floored (Int64 0) = Int64 0" "floored (Int64 46) = Int64 46"
    "floored (Int64 (4000000 - 4663827)) = Int64 0"
    by (simp_all add: floored_def)
  show ?thesis
    using c(3) by (simp add: returned_frame_eq example_inputs_def a b c(1,2))
qed

lemma input_record_example: "input_record example_inputs"
  by (simp add: input_record_def float_fields_def example_inputs_def
      is_float64_0 is_float64_5 is_float64_14)

lemma within_bounds_minimum: "within_bounds minimum_inputs"
  by (simp add: within_bounds_def float_fields_def minimum_inputs_def is_float64_0)

subsection \<open>The six columns by dtype\<close>

lemma labels_differenced_features:
  assumes "getitem differenced_features c = Inr b"
  shows "c = ''fullyVaccinated'' \<or> c = ''new_people_vaccinated_smoothed'' \<or>
         c = ''partiallyVaccinated'' \<or> c = ''stringency_index'' \<or>
         c = ''totalTests'' \<or> c = ''totalVaccinations''"
  using getitem_columns [OF assms] by (simp add: columns_def differenced_features_def)

lemma page_int_int:
  assumes "input_record i"
    and "getitem (input_frame i) c = Inr (Int64 a)"
    and "getitem differenced_features c = Inr (Int64 b)"
  shows "0 \<le> sint a \<and> 0 \<le> sint b \<and>
         getitem (returned_frame i) c = Inr (floored (Int64 (a - b)))"
  using labels_differenced_features [OF assms(3)] assms
  by (elim disjE; hypsubst)
     (simp_all add: getitem_input_frame getitem_differenced_features
        getitem_returned_frame input_record_def)

lemma page_float_int:
  assumes "getitem (input_frame i) c = Inr (Float64 (Finite x))"
    and "getitem differenced_features c = Inr (Int64 b)"
  shows "c = ''new_people_vaccinated_smoothed'' \<and> x = new_people_vaccinated_smoothed i \<and>
         b = 959"
  using labels_differenced_features [OF assms(2)] assms
  by (elim disjE; hypsubst)
     (simp_all add: getitem_input_frame getitem_differenced_features)

lemma page_float_float:
  assumes "getitem (input_frame i) c = Inr (Float64 (Finite x))"
    and "getitem differenced_features c = Inr (Float64 (Finite y))"
  shows "c = ''stringency_index'' \<and> x = stringency_index i \<and>
         y = 977421856627753 / 70368744177664"
  using labels_differenced_features [OF assms(2)] assms
  by (elim disjE; hypsubst)
     (simp_all add: getitem_input_frame getitem_differenced_features)

section \<open>Properties of \<^verbatim>\<open>preprocess\<close>\<close>

text \<open>
  Claim C4.  On the page, for every Input Record whose counts are not negative and whose
  floats are \<^verbatim>\<open>float64\<close> numbers, \<^verbatim>\<open>preprocess\<close> returns, and for every label that the input
  frame and the baseline frame both have, with cell \<open>v\<close> in the input frame and cell \<open>b\<close> in
  the baseline frame, the returned frame holds the difference of \<open>v\<close> and \<open>b\<close> when \<open>b \<le> v\<close>
  and the integer 0 otherwise.  The difference is the one the columns compute: for two
  \<^verbatim>\<open>int64\<close> cells the integer difference, which is exact here, and for a \<^verbatim>\<open>float64\<close> cell the
  exact difference rounded to \<^verbatim>\<open>float64\<close>.  The three cases are the combinations of dtypes
  that the six common columns have.
\<close>

theorem preprocess_differences:
  assumes "input_record i"
  shows "\<exists>h'. preprocess input_df differencing_data (initial_heap i) = Inr (input_df, h') \<and>
           intersection (columns (initial_heap i input_df))
             (columns (initial_heap i differencing_data)) =
             [''fullyVaccinated'', ''new_people_vaccinated_smoothed'', ''partiallyVaccinated'',
              ''stringency_index'', ''totalTests'', ''totalVaccinations''] \<and>
           (\<forall>c a b. getitem (initial_heap i input_df) c = Inr (Int64 a) \<and>
                    getitem (initial_heap i differencing_data) c = Inr (Int64 b) \<longrightarrow>
                    sint (a - b) = sint a - sint b \<and>
                    getitem (h' input_df) c =
                      Inr (if sint b \<le> sint a then Int64 (a - b) else Int64 0)) \<and>
           (\<forall>c x b. getitem (initial_heap i input_df) c = Inr (Float64 (Finite x)) \<and>
                    getitem (initial_heap i differencing_data) c = Inr (Int64 b) \<longrightarrow>
                    getitem (h' input_df) c =
                      Inr (if of_int (sint b) \<le> x
                           then Float64 (to_float64 (x - of_int (sint b))) else Int64 0)) \<and>
           (\<forall>c x y. getitem (initial_heap i input_df) c = Inr (Float64 (Finite x)) \<and>
                    getitem (initial_heap i differencing_data) c = Inr (Float64 (Finite y)) \<longrightarrow>
                    getitem (h' input_df) c =
                      Inr (if y \<le> x then Float64 (to_float64 (x - y)) else Int64 0))"
proof -
  let ?h' = "(initial_heap i)(input_df := returned_frame i)"
  have floats: "is_float64 (new_people_vaccinated_smoothed i)" "is_float64 (stringency_index i)"
    using assms by (simp_all add: input_record_def float_fields_def)
  have ints: "sint (a - b) = sint a - sint b \<and>
      getitem (?h' input_df) c = Inr (if sint b \<le> sint a then Int64 (a - b) else Int64 0)"
    if "getitem (initial_heap i input_df) c = Inr (Int64 a) \<and>
        getitem (initial_heap i differencing_data) c = Inr (Int64 b)" for c a b
  proof -
    from that have "0 \<le> sint a \<and> 0 \<le> sint b \<and>
        getitem (returned_frame i) c = Inr (floored (Int64 (a - b)))"
      using assms by (intro page_int_int) (simp_all add: initial_heap_simps)
    then show ?thesis
      by (simp add: floored_int sint_diff_baseline)
  qed
  have mixed: "getitem (?h' input_df) c =
      Inr (if of_int (sint b) \<le> x then Float64 (to_float64 (x - of_int (sint b))) else Int64 0)"
    if "getitem (initial_heap i input_df) c = Inr (Float64 (Finite x)) \<and>
        getitem (initial_heap i differencing_data) c = Inr (Int64 b)" for c x b
  proof -
    from that have "c = ''new_people_vaccinated_smoothed'' \<and>
        x = new_people_vaccinated_smoothed i \<and> b = 959"
      by (intro page_float_int) (simp_all add: initial_heap_simps)
    then have known: "c = ''new_people_vaccinated_smoothed''"
      "x = new_people_vaccinated_smoothed i" "b = 959"
      by simp_all
    show ?thesis
      unfolding known using floored_float [OF floats(1) is_float64_959]
      by (simp add: getitem_returned_frame)
  qed
  have both: "getitem (?h' input_df) c =
      Inr (if y \<le> x then Float64 (to_float64 (x - y)) else Int64 0)"
    if "getitem (initial_heap i input_df) c = Inr (Float64 (Finite x)) \<and>
        getitem (initial_heap i differencing_data) c = Inr (Float64 (Finite y))" for c x y
  proof -
    from that have "c = ''stringency_index'' \<and> x = stringency_index i \<and>
        y = 977421856627753 / 70368744177664"
      by (intro page_float_float) (simp_all add: initial_heap_simps)
    then have known: "c = ''stringency_index''" "x = stringency_index i"
      "y = 977421856627753 / 70368744177664"
      by (rule conjunct1, rule conjunct2 [THEN conjunct1], rule conjunct2 [THEN conjunct2])
    show ?thesis
      unfolding known using floored_float [OF floats(2) is_float64_13_89]
      by (simp add: getitem_returned_frame)
  qed
  show ?thesis
  proof (intro exI conjI allI impI)
    show "preprocess input_df differencing_data (initial_heap i) = Inr (input_df, ?h')"
      by (rule preprocess_page_returned)
    show "intersection (columns (initial_heap i input_df))
             (columns (initial_heap i differencing_data)) =
             [''fullyVaccinated'', ''new_people_vaccinated_smoothed'', ''partiallyVaccinated'',
              ''stringency_index'', ''totalTests'', ''totalVaccinations'']"
      by (simp only: initial_heap_simps common_columns_page)
    show "sint (a - b) = sint a - sint b"
      if "getitem (initial_heap i input_df) c = Inr (Int64 a) \<and>
          getitem (initial_heap i differencing_data) c = Inr (Int64 b)" for c a b
      using ints [OF that] by (rule conjunct1)
    show "getitem (?h' input_df) c =
        Inr (if sint b \<le> sint a then Int64 (a - b) else Int64 0)"
      if "getitem (initial_heap i input_df) c = Inr (Int64 a) \<and>
          getitem (initial_heap i differencing_data) c = Inr (Int64 b)" for c a b
      using ints [OF that] by (rule conjunct2)
    show "getitem (?h' input_df) c =
        Inr (if of_int (sint b) \<le> x
             then Float64 (to_float64 (x - of_int (sint b))) else Int64 0)"
      if "getitem (initial_heap i input_df) c = Inr (Float64 (Finite x)) \<and>
          getitem (initial_heap i differencing_data) c = Inr (Int64 b)" for c x b
      using that by (rule mixed)
    show "getitem (?h' input_df) c =
        Inr (if y \<le> x then Float64 (to_float64 (x - y)) else Int64 0)"
      if "getitem (initial_heap i input_df) c = Inr (Float64 (Finite x)) \<and>
          getitem (initial_heap i differencing_data) c = Inr (Float64 (Finite y))" for c x y
      using that by (rule both)
  qed
qed

text \<open>
  The example values: a count above its baseline is differenced, a count below it becomes 0
  and not the original value, a float below an integer baseline becomes 0, and a float above
  the float baseline becomes the \<^verbatim>\<open>float64\<close> difference, which for 14 is
  0.1099999999999994315658113919198513031005859375.
\<close>

theorem preprocess_differences_witness:
  "input_record example_inputs \<and>
   (getitem (initial_heap example_inputs input_df) ''fullyVaccinated'' = Inr (Int64 9327700) \<and>
    getitem (initial_heap example_inputs differencing_data) ''fullyVaccinated'' =
      Inr (Int64 9327654)) \<and>
   (getitem (initial_heap example_inputs input_df) ''partiallyVaccinated'' =
      Inr (Int64 4000000) \<and>
    getitem (initial_heap example_inputs differencing_data) ''partiallyVaccinated'' =
      Inr (Int64 4663827)) \<and>
   (getitem (initial_heap example_inputs input_df) ''new_people_vaccinated_smoothed'' =
      Inr (Float64 (Finite 5)) \<and>
    getitem (initial_heap example_inputs differencing_data) ''new_people_vaccinated_smoothed'' =
      Inr (Int64 959)) \<and>
   (getitem (initial_heap example_inputs input_df) ''stringency_index'' =
      Inr (Float64 (Finite 14)) \<and>
    getitem (initial_heap example_inputs differencing_data) ''stringency_index'' =
      Inr (Float64 (Finite (977421856627753 / 70368744177664)))) \<and>
   (\<exists>h'. preprocess input_df differencing_data (initial_heap example_inputs) =
           Inr (input_df, h') \<and>
         getitem (h' input_df) ''fullyVaccinated'' = Inr (Int64 46) \<and>
         getitem (h' input_df) ''partiallyVaccinated'' = Inr (Int64 0) \<and>
         getitem (h' input_df) ''new_people_vaccinated_smoothed'' = Inr (Int64 0) \<and>
         getitem (h' input_df) ''stringency_index'' =
           Inr (Float64 (Finite (7740561859543 / 70368744177664))))"
proof -
  have rec: "input_record example_inputs"
    by (rule input_record_example)
  have a: "getitem (initial_heap example_inputs input_df) ''fullyVaccinated'' =
        Inr (Int64 9327700) \<and>
      getitem (initial_heap example_inputs differencing_data) ''fullyVaccinated'' =
        Inr (Int64 9327654)"
    by (simp add: initial_heap_simps getitem_input_frame getitem_differenced_features
        example_inputs_def)
  have b: "getitem (initial_heap example_inputs input_df) ''partiallyVaccinated'' =
        Inr (Int64 4000000) \<and>
      getitem (initial_heap example_inputs differencing_data) ''partiallyVaccinated'' =
        Inr (Int64 4663827)"
    by (simp add: initial_heap_simps getitem_input_frame getitem_differenced_features
        example_inputs_def)
  have c: "getitem (initial_heap example_inputs input_df) ''new_people_vaccinated_smoothed'' =
        Inr (Float64 (Finite 5)) \<and>
      getitem (initial_heap example_inputs differencing_data)
        ''new_people_vaccinated_smoothed'' = Inr (Int64 959)"
    by (simp add: initial_heap_simps getitem_input_frame getitem_differenced_features
        example_inputs_def)
  have d: "getitem (initial_heap example_inputs input_df) ''stringency_index'' =
        Inr (Float64 (Finite 14)) \<and>
      getitem (initial_heap example_inputs differencing_data) ''stringency_index'' =
        Inr (Float64 (Finite (977421856627753 / 70368744177664)))"
    by (simp add: initial_heap_simps getitem_input_frame getitem_differenced_features
        example_inputs_def)
  from preprocess_differences [OF rec] obtain h' where
    run: "preprocess input_df differencing_data (initial_heap example_inputs) =
        Inr (input_df, h')"
    and ints: "\<forall>c a b. getitem (initial_heap example_inputs input_df) c = Inr (Int64 a) \<and>
        getitem (initial_heap example_inputs differencing_data) c = Inr (Int64 b) \<longrightarrow>
        sint (a - b) = sint a - sint b \<and>
        getitem (h' input_df) c = Inr (if sint b \<le> sint a then Int64 (a - b) else Int64 0)"
    and mixed: "\<forall>c x b.
        getitem (initial_heap example_inputs input_df) c = Inr (Float64 (Finite x)) \<and>
        getitem (initial_heap example_inputs differencing_data) c = Inr (Int64 b) \<longrightarrow>
        getitem (h' input_df) c =
          Inr (if of_int (sint b) \<le> x
               then Float64 (to_float64 (x - of_int (sint b))) else Int64 0)"
    and both: "\<forall>c x y.
        getitem (initial_heap example_inputs input_df) c = Inr (Float64 (Finite x)) \<and>
        getitem (initial_heap example_inputs differencing_data) c =
          Inr (Float64 (Finite y)) \<longrightarrow>
        getitem (h' input_df) c =
          Inr (if y \<le> x then Float64 (to_float64 (x - y)) else Int64 0)"
    by (elim exE conjE)
  have ra: "getitem (h' input_df) ''fullyVaccinated'' = Inr (Int64 46)"
    using ints [rule_format, OF a, THEN conjunct2] by simp
  have rb: "getitem (h' input_df) ''partiallyVaccinated'' = Inr (Int64 0)"
    using ints [rule_format, OF b, THEN conjunct2] by simp
  have rc: "getitem (h' input_df) ''new_people_vaccinated_smoothed'' = Inr (Int64 0)"
    using mixed [rule_format, OF c] by simp
  have rd: "getitem (h' input_df) ''stringency_index'' =
      Inr (Float64 (Finite (7740561859543 / 70368744177664)))"
    using both [rule_format, OF d] by (simp add: to_float64_example)
  have "\<exists>h'. preprocess input_df differencing_data (initial_heap example_inputs) =
           Inr (input_df, h') \<and>
         getitem (h' input_df) ''fullyVaccinated'' = Inr (Int64 46) \<and>
         getitem (h' input_df) ''partiallyVaccinated'' = Inr (Int64 0) \<and>
         getitem (h' input_df) ''new_people_vaccinated_smoothed'' = Inr (Int64 0) \<and>
         getitem (h' input_df) ''stringency_index'' =
           Inr (Float64 (Finite (7740561859543 / 70368744177664)))"
    using run ra rb rc rd by (intro exI [of _ h'] conjI)
  with rec a [THEN conjunct1] a [THEN conjunct2] b [THEN conjunct1] b [THEN conjunct2]
    c [THEN conjunct1] c [THEN conjunct2] d [THEN conjunct1] d [THEN conjunct2]
  show ?thesis
    by (intro conjI)
qed

text \<open>
  Claim C6.  The frame that \<^verbatim>\<open>preprocess\<close> returns has the column labels of the frame it was
  given, in the same order; for the frame of the page these are the fourteen feature names.
\<close>

theorem preprocess_keeps_columns:
  assumes "m \<noteq> k"
    and "distinct (columns (h m))"
    and "distinct (columns (h k))"
  shows "\<exists>h'. preprocess m k h = Inr (m, h') \<and> columns (h' m) = columns (h m)"
  using preprocess_eq [OF assms] by (simp add: columns_map_adjust)

text \<open>The page with every widget at its minimum.\<close>

theorem preprocess_keeps_columns_witness:
  "input_df \<noteq> differencing_data \<and>
   distinct (columns (initial_heap minimum_inputs input_df)) \<and>
   distinct (columns (initial_heap minimum_inputs differencing_data)) \<and>
   (\<exists>h'. preprocess input_df differencing_data (initial_heap minimum_inputs) = Inr (input_df, h') \<and>
         columns (h' input_df) =
           [''fullyVaccinated'', ''new_deaths_smoothed'', ''new_people_vaccinated_smoothed'',
            ''new_vaccinations_smoothed'', ''partiallyVaccinated'', ''stringency_index'',
            ''test24hours'', ''totalTests'', ''totalVaccinations'', ''vaccinated24hours'',
            ''rfh'', ''r3h'', ''month'', ''day_of_week''])"
proof -
  have a: "input_df \<noteq> differencing_data"
    by (rule initial_heap_simps)
  have b: "distinct (columns (initial_heap minimum_inputs input_df))"
    by (simp add: initial_heap_simps distinct_input_frame)
  have c: "distinct (columns (initial_heap minimum_inputs differencing_data))"
    by (simp add: initial_heap_simps distinct_differenced_features)
  have d: "columns (initial_heap minimum_inputs input_df) =
           [''fullyVaccinated'', ''new_deaths_smoothed'', ''new_people_vaccinated_smoothed'',
            ''new_vaccinations_smoothed'', ''partiallyVaccinated'', ''stringency_index'',
            ''test24hours'', ''totalTests'', ''totalVaccinations'', ''vaccinated24hours'',
            ''rfh'', ''r3h'', ''month'', ''day_of_week'']"
    by (simp add: initial_heap_simps columns_def input_frame_def)
  from preprocess_keeps_columns [OF a b c] a b c show ?thesis
    unfolding d by simp
qed

text \<open>
  Claim C7.  A column of the input frame whose label the baseline frame does not have keeps
  its cell.
\<close>

theorem preprocess_passes_through:
  assumes "m \<noteq> k"
    and "distinct (columns (h m))"
    and "distinct (columns (h k))"
    and "c \<notin> set (columns (h k))"
  shows "\<exists>h'. preprocess m k h = Inr (m, h') \<and> getitem (h' m) c = getitem (h m) c"
proof -
  have "c \<notin> set (intersection (columns (h m)) (columns (h k)))"
    using assms(4) by (simp add: set_intersection)
  then show ?thesis
    using preprocess_eq [OF assms(1,2,3)] by (simp add: getitem_map_adjust_other)
qed

text \<open>On the page with every widget at its minimum, \<^verbatim>\<open>month\<close> stays 1.\<close>

theorem preprocess_passes_through_witness:
  "input_df \<noteq> differencing_data \<and>
   distinct (columns (initial_heap minimum_inputs input_df)) \<and>
   distinct (columns (initial_heap minimum_inputs differencing_data)) \<and>
   ''month'' \<notin> set (columns (initial_heap minimum_inputs differencing_data)) \<and>
   (\<exists>h'. preprocess input_df differencing_data (initial_heap minimum_inputs) = Inr (input_df, h') \<and>
         getitem (h' input_df) ''month'' = Inr (Int64 1))"
proof -
  have a: "input_df \<noteq> differencing_data"
    by (rule initial_heap_simps)
  have b: "distinct (columns (initial_heap minimum_inputs input_df))"
    by (simp add: initial_heap_simps distinct_input_frame)
  have c: "distinct (columns (initial_heap minimum_inputs differencing_data))"
    by (simp add: initial_heap_simps distinct_differenced_features)
  have d: "''month'' \<notin> set (columns (initial_heap minimum_inputs differencing_data))"
    by (simp add: initial_heap_simps columns_def differenced_features_def)
  have e: "getitem (initial_heap minimum_inputs input_df) ''month'' = Inr (Int64 1)"
    by (simp add: initial_heap_simps getitem_def input_frame_def minimum_inputs_def)
  from preprocess_passes_through [OF a b c d] a b c d show ?thesis
    unfolding e by simp
qed

text \<open>
  Claim C8.  For frames with distinct labels held by two different objects \<^verbatim>\<open>preprocess\<close> does
  not raise, whether or not every label of the baseline frame is a label of the input frame.
  It leaves the baseline frame as it was, adds no column to the input frame, changes no
  column whose label is not common to both frames, and puts the floored difference in every
  column whose label is common.
\<close>

theorem preprocess_never_fails:
  assumes "m \<noteq> k"
    and "distinct (columns (h m))"
    and "distinct (columns (h k))"
  shows "\<exists>h'. preprocess m k h = Inr (m, h') \<and>
               h' k = h k \<and>
               columns (h' m) = columns (h m) \<and>
               (\<forall>c. c \<notin> set (columns (h m)) \<inter> set (columns (h k)) \<longrightarrow>
                      getitem (h' m) c = getitem (h m) c) \<and>
               (\<forall>c v b. getitem (h m) c = Inr v \<and> getitem (h k) c = Inr b \<longrightarrow>
                      getitem (h' m) c =
                        Inr (if negative (subtract v b) then Int64 0 else subtract v b))"
proof -
  let ?cs = "intersection (columns (h m)) (columns (h k))"
  let ?h' = "h(m := map (adjust (h k) ?cs) (h m))"
  have run: "preprocess m k h = Inr (m, ?h')"
    using assms by (rule preprocess_eq)
  have base: "?h' k = h k"
    using assms(1) by simp
  have cols: "columns (?h' m) = columns (h m)"
    by (simp add: columns_map_adjust)
  have rest: "getitem (?h' m) c = getitem (h m) c"
    if "c \<notin> set (columns (h m)) \<inter> set (columns (h k))" for c
    using that by (simp add: getitem_map_adjust_other set_intersection)
  have common: "getitem (?h' m) c =
      Inr (if negative (subtract v b) then Int64 0 else subtract v b)"
    if "getitem (h m) c = Inr v \<and> getitem (h k) c = Inr b" for c v b
  proof -
    from that have "c \<in> set ?cs"
      by (simp add: set_intersection getitem_columns)
    with that assms(2) show ?thesis
      by (simp add: getitem_map_adjust_common)
  qed
  show ?thesis
  proof (intro exI conjI allI impI)
    show "preprocess m k h = Inr (m, ?h')" by (rule run)
    show "?h' k = h k" by (rule base)
    show "columns (?h' m) = columns (h m)" by (rule cols)
    show "getitem (?h' m) c = getitem (h m) c"
      if "c \<notin> set (columns (h m)) \<inter> set (columns (h k))" for c
      using that by (rule rest)
    show "getitem (?h' m) c =
        Inr (if negative (subtract v b) then Int64 0 else subtract v b)"
      if "getitem (h m) c = Inr v \<and> getitem (h k) c = Inr b" for c v b
      using that by (rule common)
  qed
qed

text \<open>
  The example frames: \<^verbatim>\<open>a\<close> is only in the input frame and stays, \<^verbatim>\<open>z\<close> is only in the baseline
  frame and is not added, \<^verbatim>\<open>b\<close> and \<^verbatim>\<open>c\<close> are differenced.
\<close>

theorem preprocess_never_fails_witness:
  "(2::nat) \<noteq> 3 \<and>
   distinct (columns (example_heap 2)) \<and>
   distinct (columns (example_heap 3)) \<and>
   ''a'' \<notin> set (columns (example_heap 2)) \<inter> set (columns (example_heap 3)) \<and>
   ''z'' \<notin> set (columns (example_heap 2)) \<inter> set (columns (example_heap 3)) \<and>
   getitem (example_heap 2) ''b'' = Inr (Int64 1) \<and>
   getitem (example_heap 3) ''b'' = Inr (Int64 3) \<and>
   getitem (example_heap 2) ''c'' = Inr (Int64 9) \<and>
   getitem (example_heap 3) ''c'' = Inr (Int64 2) \<and>
   (\<exists>h'. preprocess 2 3 example_heap = Inr (2, h') \<and>
         h' 3 = [(''b'', Int64 3), (''z'', Int64 7), (''c'', Int64 2)] \<and>
         columns (h' 2) = [''a'', ''b'', ''c''] \<and>
         getitem (h' 2) ''a'' = Inr (Int64 5) \<and>
         getitem (h' 2) ''z'' = Inl (KeyError ''z'') \<and>
         getitem (h' 2) ''b'' = Inr (Int64 0) \<and>
         getitem (h' 2) ''c'' = Inr (Int64 7))"
proof -
  have a: "(2::nat) \<noteq> 3" by simp
  have b: "distinct (columns (example_heap 2))"
    by (simp add: example_heap_def columns_def)
  have c: "distinct (columns (example_heap 3))"
    by (simp add: example_heap_def columns_def)
  have d: "''a'' \<notin> set (columns (example_heap 2)) \<inter> set (columns (example_heap 3))"
    by (simp add: example_heap_def columns_def)
  have e: "''z'' \<notin> set (columns (example_heap 2)) \<inter> set (columns (example_heap 3))"
    by (simp add: example_heap_def columns_def)
  have f: "getitem (example_heap 2) ''b'' = Inr (Int64 1) \<and>
      getitem (example_heap 3) ''b'' = Inr (Int64 3)"
    by (simp add: example_heap_def getitem_def)
  have g: "getitem (example_heap 2) ''c'' = Inr (Int64 9) \<and>
      getitem (example_heap 3) ''c'' = Inr (Int64 2)"
    by (simp add: example_heap_def getitem_def)
  have old: "example_heap 3 = [(''b'', Int64 3), (''z'', Int64 7), (''c'', Int64 2)]"
    "columns (example_heap 2) = [''a'', ''b'', ''c'']"
    "getitem (example_heap 2) ''a'' = Inr (Int64 5)"
    "getitem (example_heap 2) ''z'' = Inl (KeyError ''z'')"
    by (simp_all add: example_heap_def getitem_def columns_def)
  from preprocess_never_fails [OF a b c] obtain h' where
    run: "preprocess 2 3 example_heap = Inr (2, h')"
    and base: "h' 3 = example_heap 3"
    and cols: "columns (h' 2) = columns (example_heap 2)"
    and rest: "\<forall>c. c \<notin> set (columns (example_heap 2)) \<inter> set (columns (example_heap 3)) \<longrightarrow>
            getitem (h' 2) c = getitem (example_heap 2) c"
    and common: "\<forall>c v b. getitem (example_heap 2) c = Inr v \<and> getitem (example_heap 3) c = Inr b \<longrightarrow>
            getitem (h' 2) c = Inr (if negative (subtract v b) then Int64 0 else subtract v b)"
    by (elim exE conjE)
  have ka: "getitem (h' 2) ''a'' = Inr (Int64 5)"
    using rest [rule_format, OF d] by (simp only: old)
  have kz: "getitem (h' 2) ''z'' = Inl (KeyError ''z'')"
    using rest [rule_format, OF e] by (simp only: old)
  have kb: "getitem (h' 2) ''b'' = Inr (Int64 0)"
    using common [rule_format, OF f] by simp
  have kc: "getitem (h' 2) ''c'' = Inr (Int64 7)"
    using common [rule_format, OF g] by simp
  have k3: "h' 3 = [(''b'', Int64 3), (''z'', Int64 7), (''c'', Int64 2)]"
    using base by (simp only: old)
  have k2: "columns (h' 2) = [''a'', ''b'', ''c'']"
    using cols by (simp only: old)
  have "\<exists>h'. preprocess 2 3 example_heap = Inr (2, h') \<and>
         h' 3 = [(''b'', Int64 3), (''z'', Int64 7), (''c'', Int64 2)] \<and>
         columns (h' 2) = [''a'', ''b'', ''c''] \<and>
         getitem (h' 2) ''a'' = Inr (Int64 5) \<and>
         getitem (h' 2) ''z'' = Inl (KeyError ''z'') \<and>
         getitem (h' 2) ''b'' = Inr (Int64 0) \<and>
         getitem (h' 2) ''c'' = Inr (Int64 7)"
    using run k3 k2 ka kz kb kc by (intro exI [of _ h'] conjI)
  with a b c d e f [THEN conjunct1] f [THEN conjunct2] g [THEN conjunct1] g [THEN conjunct2]
  show ?thesis by (intro conjI)
qed

text \<open>Whether line 29 runs for a column of the page, when the widget values respect their bounds.\<close>

lemma negative_difference_page:
  assumes "within_bounds i"
  shows "\<not> negative_difference (input_frame i) differenced_features ''fullyVaccinated''"
    and "negative_difference (input_frame i) differenced_features
           ''new_people_vaccinated_smoothed'' \<longleftrightarrow> new_people_vaccinated_smoothed i < 959"
    and "\<not> negative_difference (input_frame i) differenced_features ''partiallyVaccinated''"
    and "negative_difference (input_frame i) differenced_features ''stringency_index''
           \<longleftrightarrow> stringency_index i < 13.89"
    and "\<not> negative_difference (input_frame i) differenced_features ''totalTests''"
    and "\<not> negative_difference (input_frame i) differenced_features ''totalVaccinations''"
proof -
  have floats: "is_float64 (new_people_vaccinated_smoothed i)" "is_float64 (stringency_index i)"
    using assms by (simp_all add: within_bounds_def float_fields_def)
  have counts: "0 \<le> sint (fullyVaccinated i - 9327654)"
    "0 \<le> sint (partiallyVaccinated i - 4663827)"
    "0 \<le> sint (totalTests i - 4166833)"
    "0 \<le> sint (totalVaccinations i - 9982068)"
    using assms by (simp_all add: within_bounds_def sint_diff_baseline)
  show "\<not> negative_difference (input_frame i) differenced_features ''fullyVaccinated''"
    using counts(1)
    by (simp add: negative_difference_def getitem_input_frame getitem_differenced_features)
  show "\<not> negative_difference (input_frame i) differenced_features ''partiallyVaccinated''"
    using counts(2)
    by (simp add: negative_difference_def getitem_input_frame getitem_differenced_features)
  show "\<not> negative_difference (input_frame i) differenced_features ''totalTests''"
    using counts(3)
    by (simp add: negative_difference_def getitem_input_frame getitem_differenced_features)
  show "\<not> negative_difference (input_frame i) differenced_features ''totalVaccinations''"
    using counts(4)
    by (simp add: negative_difference_def getitem_input_frame getitem_differenced_features)
  have "negative_difference (input_frame i) differenced_features
      ''new_people_vaccinated_smoothed'' \<longleftrightarrow>
      negative (Float64 (to_float64 (new_people_vaccinated_smoothed i - 959)))"
    by (simp del: as_float64.simps
        add: negative_difference_def getitem_input_frame getitem_differenced_features
          as_float64_959)
  then show "negative_difference (input_frame i) differenced_features
      ''new_people_vaccinated_smoothed'' \<longleftrightarrow> new_people_vaccinated_smoothed i < 959"
    by (simp only: negative_to_float64 [OF floats(1) is_float64_959])
  have "negative_difference (input_frame i) differenced_features ''stringency_index'' \<longleftrightarrow>
      negative (Float64 (to_float64
        (stringency_index i - 977421856627753 / 70368744177664)))"
    by (simp add: negative_difference_def getitem_input_frame getitem_differenced_features)
  then have "negative_difference (input_frame i) differenced_features ''stringency_index''
      \<longleftrightarrow> stringency_index i < 977421856627753 / 70368744177664"
    by (simp only: negative_to_float64 [OF floats(2) is_float64_13_89])
  then show "negative_difference (input_frame i) differenced_features ''stringency_index''
      \<longleftrightarrow> stringency_index i < 13.89"
    by (simp only: below_13_89 [OF floats(2)])
qed

text \<open>
  Claim C10.  When every widget value respects its bounds, line 29 of \<^verbatim>\<open>preprocess\<close> runs on
  the page for \<^verbatim>\<open>new_people_vaccinated_smoothed\<close> exactly when its value is below 959, for
  \<^verbatim>\<open>stringency_index\<close> exactly when its value is below 13.89, and for no other column: the
  minimum of each of the four cumulative counts is its baseline cell.
\<close>

theorem clamp_only_two_columns:
  assumes "within_bounds i"
  shows "clamped_columns input_df differencing_data
           (intersection (columns (input_frame i)) (columns differenced_features))
           (initial_heap i) =
         (if new_people_vaccinated_smoothed i < 959
          then [''new_people_vaccinated_smoothed''] else []) @
         (if stringency_index i < 13.89 then [''stringency_index''] else []) \<and>
         getitem (input_frame minimum_inputs) ''fullyVaccinated'' =
           getitem differenced_features ''fullyVaccinated'' \<and>
         getitem (input_frame minimum_inputs) ''partiallyVaccinated'' =
           getitem differenced_features ''partiallyVaccinated'' \<and>
         getitem (input_frame minimum_inputs) ''totalTests'' =
           getitem differenced_features ''totalTests'' \<and>
         getitem (input_frame minimum_inputs) ''totalVaccinations'' =
           getitem differenced_features ''totalVaccinations''"
proof -
  have minima:
    "getitem (input_frame minimum_inputs) ''fullyVaccinated'' =
       getitem differenced_features ''fullyVaccinated''"
    "getitem (input_frame minimum_inputs) ''partiallyVaccinated'' =
       getitem differenced_features ''partiallyVaccinated''"
    "getitem (input_frame minimum_inputs) ''totalTests'' =
       getitem differenced_features ''totalTests''"
    "getitem (input_frame minimum_inputs) ''totalVaccinations'' =
       getitem differenced_features ''totalVaccinations''"
    by (simp_all add: getitem_input_frame getitem_differenced_features minimum_inputs_def)
  let ?cs = "intersection (columns (input_frame i)) (columns differenced_features)"
  have "\<forall>c \<in> set ?cs. \<exists>b. getitem (initial_heap i differencing_data) c = Inr b"
    using distinct_differenced_features
    by (auto simp: set_intersection initial_heap_simps intro: getitem_total)
  then have "clamped_columns input_df differencing_data ?cs (initial_heap i) =
      filter (negative_difference (initial_heap i input_df) (initial_heap i differencing_data)) ?cs"
    by (intro clamped_columns_eq)
       (simp_all add: initial_heap_simps distinct_input_frame distinct_intersection set_intersection)
  also have "\<dots> = filter (negative_difference (input_frame i) differenced_features)
      [''fullyVaccinated'', ''new_people_vaccinated_smoothed'', ''partiallyVaccinated'',
       ''stringency_index'', ''totalTests'', ''totalVaccinations'']"
    by (simp only: initial_heap_simps common_columns_page)
  also have "\<dots> = (if new_people_vaccinated_smoothed i < 959
          then [''new_people_vaccinated_smoothed''] else []) @
         (if stringency_index i < 13.89 then [''stringency_index''] else [])"
    by (simp add: negative_difference_page [OF assms])
  finally show ?thesis
    using minima by (intro conjI)
qed

text \<open>With every widget at its minimum both of the two columns are floored.\<close>

theorem clamp_only_two_columns_witness:
  "within_bounds minimum_inputs \<and>
   clamped_columns input_df differencing_data
     (intersection (columns (input_frame minimum_inputs)) (columns differenced_features))
     (initial_heap minimum_inputs) =
   [''new_people_vaccinated_smoothed'', ''stringency_index'']"
proof -
  have a: "within_bounds minimum_inputs"
    by (rule within_bounds_minimum)
  have b: "new_people_vaccinated_smoothed minimum_inputs < 959"
    "stringency_index minimum_inputs < 13.89"
    by (simp_all add: minimum_inputs_def)
  from clamp_only_two_columns [OF a, THEN conjunct1] a b show ?thesis
    by simp
qed

section \<open>Properties of the page\<close>

text \<open>
  Claim C9, as the code has it.  With no file at the model path, and with a cache that is
  empty or holds the failure of an earlier press that found no file, a press of the button
  ends normally; the page shows an error that spells out the path, then the caption and the
  frame, then the error of the handler, and no prediction.
\<close>

theorem missing_model_file_is_reported:
  "main i True Missing None =
     Inr ([Os_path_exists model_path,
           St_error ('' Model file not found at '' @ model_path @
                     ''. Please check the path and try again.''),
           St_write ''**You have submitted the below data.**'',
           St_write_frame (returned_frame i),
           St_error (''An error occurred: '' @ none_has_no_predict)],
          Some (None, [St_error not_found_message])) \<and>
   main i True Missing (Some (None, [St_error not_found_message])) =
     Inr ([St_error ('' Model file not found at '' @ model_path @
                     ''. Please check the path and try again.''),
           St_write ''**You have submitted the below data.**'',
           St_write_frame (returned_frame i),
           St_error (''An error occurred: '' @ none_has_no_predict)],
          Some (None, [St_error not_found_message])) \<and>
   (\<forall>s. St_success s \<notin> set (effects (main i True Missing None))) \<and>
   (\<forall>s. St_success s \<notin>
          set (effects (main i True Missing (Some (None, [St_error not_found_message])))))"
  unfolding main_missing_fresh main_failure_cached
  by (simp add: effects_def not_found_message_def)

text \<open>The run with every widget at its minimum, with the path written out.\<close>

theorem missing_model_file_is_reported_witness:
  "effects (main minimum_inputs True Missing None) =
     [Os_path_exists ''model/xgb_model_total_imputed_cases.pkl'',
      St_error '' Model file not found at model/xgb_model_total_imputed_cases.pkl. Please check the path and try again.'',
      St_write ''**You have submitted the below data.**'',
      St_write_frame (returned_frame minimum_inputs),
      St_error (''An error occurred: '' @ none_has_no_predict)]"
  using missing_model_file_is_reported [of minimum_inputs]
  by (simp add: effects_def model_path_def)

text \<open>
  Claim C9 as stated fails when the cache holds something else.  In the first run the file
  is there and the model is loaded and cached; in the second run the file is gone, and the
  page shows a prediction and no error.  In the third and fourth run the file does not
  unpickle and is then gone: the error shown is the cached one, which does not name the
  path.
\<close>

theorem cached_load_hides_missing_file:
  "main minimum_inputs True (Stored (constant_model 123.456)) None =
     Inr ([Os_path_exists model_path, Joblib_load model_path,
           St_write ''**You have submitted the below data.**'',
           St_write_frame (returned_frame minimum_inputs),
           Model_predict (returned_frame minimum_inputs),
           St_success ''Predicted Total Imputed Cases:  123.456''],
          Some (Some (constant_model 123.456), [])) \<and>
   main minimum_inputs True Missing (Some (Some (constant_model 123.456), [])) =
     Inr ([St_write ''**You have submitted the below data.**'',
           St_write_frame (returned_frame minimum_inputs),
           Model_predict (returned_frame minimum_inputs),
           St_success ''Predicted Total Imputed Cases:  123.456''],
          Some (Some (constant_model 123.456), [])) \<and>
   main minimum_inputs True (Corrupt (OtherError ''invalid load key'')) None =
     Inr ([Os_path_exists model_path, Joblib_load model_path,
           St_error ''An error occured while loading the model: invalid load key'',
           St_write ''**You have submitted the below data.**'',
           St_write_frame (returned_frame minimum_inputs),
           St_error (''An error occurred: '' @ none_has_no_predict)],
          Some (None, [St_error ''An error occured while loading the model: invalid load key''])) \<and>
   main minimum_inputs True Missing
        (Some (None, [St_error ''An error occured while loading the model: invalid load key''])) =
     Inr ([St_error ''An error occured while loading the model: invalid load key'',
           St_write ''**You have submitted the below data.**'',
           St_write_frame (returned_frame minimum_inputs),
           St_error (''An error occurred: '' @ none_has_no_predict)],
          Some (None, [St_error ''An error occured while loading the model: invalid load key'']))"
  unfolding main_constant_fresh main_constant_cached format_3f_example
  by (simp add: main_trigger load_model_fresh_corrupt load_model_cached predict_block_None)

text \<open>
  Claim C2, as the code has it.  When \<^verbatim>\<open>load_model\<close> returns \<^verbatim>\<open>None\<close>, the run goes on after what
  the loader wrote: it writes the caption and the frame and enters the guarded block, where
  the attribute lookup on \<^verbatim>\<open>None\<close> raises before any model is called, and the handler writes
  its own error.  No prediction is written.
\<close>

theorem no_model_ends_in_handler:
  assumes "snd (fst (load_model a c)) = None"
  shows "main i True a c =
     Inr (fst (fst (load_model a c)) @
          [St_write ''**You have submitted the below data.**'',
           St_write_frame (returned_frame i),
           St_error (''An error occurred: '' @ none_has_no_predict)],
          snd (load_model a c))"
  by (simp add: main_trigger assms predict_block_None)

text \<open>A file that does not unpickle, with every widget at its minimum.\<close>

theorem no_model_ends_in_handler_witness:
  "snd (fst (load_model (Corrupt (OtherError ''invalid load key''))  None)) = None \<and>
   main minimum_inputs True (Corrupt (OtherError ''invalid load key'')) None =
     Inr ([Os_path_exists model_path, Joblib_load model_path,
           St_error ''An error occured while loading the model: invalid load key'',
           St_write ''**You have submitted the below data.**'',
           St_write_frame (returned_frame minimum_inputs),
           St_error (''An error occurred: '' @ none_has_no_predict)],
          Some (None, [St_error ''An error occured while loading the model: invalid load key'']))"
proof -
  have a: "snd (fst (load_model (Corrupt (OtherError ''invalid load key''))  None)) = None"
    by (simp add: load_model_fresh_corrupt)
  from no_model_ends_in_handler [OF a, of minimum_inputs] a show ?thesis
    by (simp add: load_model_fresh_corrupt)
qed

text \<open>
  Claim C2 as stated fails with no file at the model path: the run does not end with what the
  loader wrote, its last element is not the error of the loader, and the caption is written.
\<close>

theorem loader_failure_does_not_halt:
  "effects (main minimum_inputs True Missing None) \<noteq> fst (load_model_body Missing) \<and>
   last (effects (main minimum_inputs True Missing None)) \<noteq> St_error not_found_message \<and>
   St_write ''**You have submitted the below data.**''
     \<in> set (effects (main minimum_inputs True Missing None))"
  unfolding main_missing_fresh
  by (simp add: effects_def load_model_body_def not_found_message_def none_has_no_predict_def)

text \<open>
  Claim C3 at a run where it fails.  The first press finds no file and leaves \<^verbatim>\<open>None\<close> in the
  cache.  At the second press the file is there, but \<^verbatim>\<open>load_model\<close> returns the cached \<^verbatim>\<open>None\<close>
  without looking at the path, and no prediction is made.
\<close>

theorem failed_load_stays_cached:
  "main minimum_inputs True Missing None =
     Inr ([Os_path_exists model_path, St_error not_found_message,
           St_write ''**You have submitted the below data.**'',
           St_write_frame (returned_frame minimum_inputs),
           St_error (''An error occurred: '' @ none_has_no_predict)],
          Some (None, [St_error not_found_message])) \<and>
   main minimum_inputs True (Stored (constant_model 123.456))
        (Some (None, [St_error not_found_message])) =
     Inr ([St_error not_found_message,
           St_write ''**You have submitted the below data.**'',
           St_write_frame (returned_frame minimum_inputs),
           St_error (''An error occurred: '' @ none_has_no_predict)],
          Some (None, [St_error not_found_message]))"
  by (simp only: main_missing_fresh main_failure_cached)

text \<open>A model that has been loaded is returned from the cache without an access to the file system.\<close>

lemma successful_load_is_cached:
  "load_model a (snd (load_model (Stored mdl) None)) = (([], Some mdl), Some (Some mdl, []))"
  by (simp add: load_model_fresh_stored load_model_cached)

text \<open>
  Claim C5 at the run it describes: a model whose \<^verbatim>\<open>predict\<close> returns \<open>[123.456]\<close>, every widget
  at its minimum, nothing cached.  The frame written under the caption is the one the store
  holds behind \<^verbatim>\<open>input_df\<close> after \<^verbatim>\<open>preprocess\<close>, which is not the frame of the widget values: the
  four counts and the two differenced floats are shown as the integer 0.  The text handed to
  \<^verbatim>\<open>st.success\<close> is the caption of the prediction followed by the number in the format
  \<^verbatim>\<open>' .3f'\<close>, a blank for the sign and three decimals.
\<close>

theorem happy_path_display:
  "main minimum_inputs True (Stored (constant_model 123.456)) None =
     Inr ([Os_path_exists model_path, Joblib_load model_path,
           St_write ''**You have submitted the below data.**'',
           St_write_frame
             (case preprocess input_df differencing_data (initial_heap minimum_inputs) of
                Inl e \<Rightarrow> []
              | Inr (r, h') \<Rightarrow> h' input_df),
           Model_predict
             (case preprocess input_df differencing_data (initial_heap minimum_inputs) of
                Inl e \<Rightarrow> []
              | Inr (r, h') \<Rightarrow> h' r),
           St_success ''Predicted Total Imputed Cases:  123.456''],
          Some (Some (constant_model 123.456), [])) \<and>
   (case preprocess input_df differencing_data (initial_heap minimum_inputs) of
      Inl e \<Rightarrow> []
    | Inr (r, h') \<Rightarrow> h' input_df) \<noteq> input_frame minimum_inputs \<and>
   getitem (input_frame minimum_inputs) ''totalTests'' = Inr (Int64 4166833) \<and>
   getitem
     (case preprocess input_df differencing_data (initial_heap minimum_inputs) of
        Inl e \<Rightarrow> []
      | Inr (r, h') \<Rightarrow> h' input_df) ''totalTests'' = Inr (Int64 0)"
proof -
  have shown: "(case preprocess input_df differencing_data (initial_heap minimum_inputs) of
      Inl e \<Rightarrow> []
    | Inr (r, h') \<Rightarrow> h' input_df) = returned_frame minimum_inputs"
    by (simp add: preprocess_page_returned)
  have given: "(case preprocess input_df differencing_data (initial_heap minimum_inputs) of
      Inl e \<Rightarrow> []
    | Inr (r, h') \<Rightarrow> h' r) = returned_frame minimum_inputs"
    by (simp add: preprocess_page_returned)
  have differ: "returned_frame minimum_inputs \<noteq> input_frame minimum_inputs"
    unfolding returned_frame_minimum input_frame_minimum by simp
  have cells: "getitem (input_frame minimum_inputs) ''totalTests'' = Inr (Int64 4166833)"
    "getitem (returned_frame minimum_inputs) ''totalTests'' = Inr (Int64 0)"
    unfolding returned_frame_minimum input_frame_minimum by (simp_all add: getitem_def)
  show ?thesis
    unfolding shown given main_constant_fresh format_3f_example
    using differ cells by (intro conjI) simp_all
qed

text \<open>
  Claim C1 at a run where it fails, every widget at its minimum.  Before the call the store
  holds the widget values behind \<^verbatim>\<open>input_df\<close>; after the call it holds the differenced values
  behind the same reference, and those are what the page shows under the caption.
\<close>

theorem submitted_frame_is_overwritten:
  "initial_heap minimum_inputs input_df =
     [(''fullyVaccinated'', Int64 9327654), (''new_deaths_smoothed'', Float64 (Finite 0)),
      (''new_people_vaccinated_smoothed'', Float64 (Finite 0)),
      (''new_vaccinations_smoothed'', Float64 (Finite 0)),
      (''partiallyVaccinated'', Int64 4663827), (''stringency_index'', Float64 (Finite 0)),
      (''test24hours'', Float64 (Finite 0)), (''totalTests'', Int64 4166833),
      (''totalVaccinations'', Int64 9982068), (''vaccinated24hours'', Float64 (Finite 0)),
      (''rfh'', Float64 (Finite 0)), (''r3h'', Float64 (Finite 0)),
      (''month'', Int64 1), (''day_of_week'', Int64 0)] \<and>
   (case preprocess input_df differencing_data (initial_heap minimum_inputs) of
      Inl e \<Rightarrow> []
    | Inr (r, h') \<Rightarrow> h' input_df) =
     [(''fullyVaccinated'', Int64 0), (''new_deaths_smoothed'', Float64 (Finite 0)),
      (''new_people_vaccinated_smoothed'', Int64 0),
      (''new_vaccinations_smoothed'', Float64 (Finite 0)),
      (''partiallyVaccinated'', Int64 0), (''stringency_index'', Int64 0),
      (''test24hours'', Float64 (Finite 0)), (''totalTests'', Int64 0),
      (''totalVaccinations'', Int64 0), (''vaccinated24hours'', Float64 (Finite 0)),
      (''rfh'', Float64 (Finite 0)), (''r3h'', Float64 (Finite 0)),
      (''month'', Int64 1), (''day_of_week'', Int64 0)] \<and>
   effects (main minimum_inputs True (Stored (constant_model 123.456)) None) =
     [Os_path_exists model_path, Joblib_load model_path,
      St_write ''**You have submitted the below data.**'',
      St_write_frame
        [(''fullyVaccinated'', Int64 0), (''new_deaths_smoothed'', Float64 (Finite 0)),
         (''new_people_vaccinated_smoothed'', Int64 0),
         (''new_vaccinations_smoothed'', Float64 (Finite 0)),
         (''partiallyVaccinated'', Int64 0), (''stringency_index'', Int64 0),
         (''test24hours'', Float64 (Finite 0)), (''totalTests'', Int64 0),
         (''totalVaccinations'', Int64 0), (''vaccinated24hours'', Float64 (Finite 0)),
         (''rfh'', Float64 (Finite 0)), (''r3h'', Float64 (Finite 0)),
         (''month'', Int64 1), (''day_of_week'', Int64 0)],
      Model_predict
        [(''fullyVaccinated'', Int64 0), (''new_deaths_smoothed'', Float64 (Finite 0)),
         (''new_people_vaccinated_smoothed'', Int64 0),
         (''new_vaccinations_smoothed'', Float64 (Finite 0)),
         (''partiallyVaccinated'', Int64 0), (''stringency_index'', Int64 0),
         (''test24hours'', Float64 (Finite 0)), (''totalTests'', Int64 0),
         (''totalVaccinations'', Int64 0), (''vaccinated24hours'', Float64 (Finite 0)),
         (''rfh'', Float64 (Finite 0)), (''r3h'', Float64 (Finite 0)),
         (''month'', Int64 1), (''day_of_week'', Int64 0)],
      St_success ''Predicted Total Imputed Cases:  123.456'']"
proof (intro conjI)
  show "initial_heap minimum_inputs input_df =
     [(''fullyVaccinated'', Int64 9327654), (''new_deaths_smoothed'', Float64 (Finite 0)),
      (''new_people_vaccinated_smoothed'', Float64 (Finite 0)),
      (''new_vaccinations_smoothed'', Float64 (Finite 0)),
      (''partiallyVaccinated'', Int64 4663827), (''stringency_index'', Float64 (Finite 0)),
      (''test24hours'', Float64 (Finite 0)), (''totalTests'', Int64 4166833),
      (''totalVaccinations'', Int64 9982068), (''vaccinated24hours'', Float64 (Finite 0)),
      (''rfh'', Float64 (Finite 0)), (''r3h'', Float64 (Finite 0)),
      (''month'', Int64 1), (''day_of_week'', Int64 0)]"
    by (simp only: initial_heap_simps input_frame_minimum)
  have "(case preprocess input_df differencing_data (initial_heap minimum_inputs) of
      Inl e \<Rightarrow> []
    | Inr (r, h') \<Rightarrow> h' input_df) = returned_frame minimum_inputs"
    by (simp add: preprocess_page_returned)
  then show "(case preprocess input_df differencing_data (initial_heap minimum_inputs) of
      Inl e \<Rightarrow> []
    | Inr (r, h') \<Rightarrow> h' input_df) =
     [(''fullyVaccinated'', Int64 0), (''new_deaths_smoothed'', Float64 (Finite 0)),
      (''new_people_vaccinated_smoothed'', Int64 0),
      (''new_vaccinations_smoothed'', Float64 (Finite 0)),
      (''partiallyVaccinated'', Int64 0), (''stringency_index'', Int64 0),
      (''test24hours'', Float64 (Finite 0)), (''totalTests'', Int64 0),
      (''totalVaccinations'', Int64 0), (''vaccinated24hours'', Float64 (Finite 0)),
      (''rfh'', Float64 (Finite 0)), (''r3h'', Float64 (Finite 0)),
      (''month'', Int64 1), (''day_of_week'', Int64 0)]"
    by (simp only: returned_frame_minimum)
  show "effects (main minimum_inputs True (Stored (constant_model 123.456)) None) =
     [Os_path_exists model_path, Joblib_load model_path,
      St_write ''**You have submitted the below data.**'',
      St_write_frame
        [(''fullyVaccinated'', Int64 0), (''new_deaths_smoothed'', Float64 (Finite 0)),
         (''new_people_vaccinated_smoothed'', Int64 0),
         (''new_vaccinations_smoothed'', Float64 (Finite 0)),
         (''partiallyVaccinated'', Int64 0), (''stringency_index'', Int64 0),
         (''test24hours'', Float64 (Finite 0)), (''totalTests'', Int64 0),
         (''totalVaccinations'', Int64 0), (''vaccinated24hours'', Float64 (Finite 0)),
         (''rfh'', Float64 (Finite 0)), (''r3h'', Float64 (Finite 0)),
         (''month'', Int64 1), (''day_of_week'', Int64 0)],
      Model_predict
        [(''fullyVaccinated'', Int64 0), (''new_deaths_smoothed'', Float64 (Finite 0)),
         (''new_people_vaccinated_smoothed'', Int64 0),
         (''new_vaccinations_smoothed'', Float64 (Finite 0)),
         (''partiallyVaccinated'', Int64 0), (''stringency_index'', Int64 0),
         (''test24hours'', Float64 (Finite 0)), (''totalTests'', Int64 0),
         (''totalVaccinations'', Int64 0), (''vaccinated24hours'', Float64 (Finite 0)),
         (''rfh'', Float64 (Finite 0)), (''r3h'', Float64 (Finite 0)),
         (''month'', Int64 1), (''day_of_week'', Int64 0)],
      St_success ''Predicted Total Imputed Cases:  123.456'']"
    unfolding main_constant_fresh returned_frame_minimum format_3f_example
    by (simp add: effects_def)
qed

end
